theory Spec2Isabelle
  imports Complex_Main "HOL-Library.Multiset"
begin

section \<open>Provider registry (tools/providers/__init__.py)\<close>

text \<open>
  The four provider modules imported by the registry. Module objects are truthy in
  Python, so \<open>if not provider\<close> only fires when the lookup returned \<open>None\<close>.
\<close>

datatype provider_module = Google | Kie | WaveSpeed | Replicate

text \<open>
  One catalog entry: the dict \<open>{"default": ..., "providers": {...}}\<close>. The key
  \<open>"default"\<close> is the field \<open>default_provider\<close> here (\<open>default\<close> is taken in HOL).
  The inner dict is an association list in the order the source writes it, which is the
  order \<open>list(d.keys())\<close> reports.
\<close>

record model_config =
  default_provider :: string
  providers :: "(string \<times> provider_module) list"

definition IMAGE_PROVIDERS :: "(string \<times> model_config) list" where
  "IMAGE_PROVIDERS =
    [(''nano-banana'',
        \<lparr>default_provider = ''google'', providers = [(''google'', Google), (''kie'', Kie)]\<rparr>),
     (''nano-banana-pro'',
        \<lparr>default_provider = ''google'', providers = [(''google'', Google), (''kie'', Kie)]\<rparr>),
     (''gpt-image-1.5'',
        \<lparr>default_provider = ''wavespeed'', providers = [(''wavespeed'', WaveSpeed)]\<rparr>),
     (''flux-schnell'',
        \<lparr>default_provider = ''replicate'', providers = [(''replicate'', Replicate)]\<rparr>),
     (''flux-dev'',
        \<lparr>default_provider = ''replicate'', providers = [(''replicate'', Replicate)]\<rparr>)]"

definition VIDEO_PROVIDERS :: "(string \<times> model_config) list" where
  "VIDEO_PROVIDERS =
    [(''kling-3.0'',
        \<lparr>default_provider = ''wavespeed'', providers = [(''kie'', Kie), (''wavespeed'', WaveSpeed)]\<rparr>),
     (''sora-2'',
        \<lparr>default_provider = ''wavespeed'', providers = [(''wavespeed'', WaveSpeed)]\<rparr>),
     (''sora-2-pro'',
        \<lparr>default_provider = ''wavespeed'', providers = [(''kie'', Kie), (''wavespeed'', WaveSpeed)]\<rparr>),
     (''veo-3.1'',
        \<lparr>default_provider = ''google'', providers = [(''google'', Google)]\<rparr>),
     (''ltx-video'',
        \<lparr>default_provider = ''replicate'', providers = [(''replicate'', Replicate)]\<rparr>),
     (''wan-2.1'',
        \<lparr>default_provider = ''replicate'', providers = [(''replicate'', Replicate)]\<rparr>),
     (''cogvideox'',
        \<lparr>default_provider = ''replicate'', providers = [(''replicate'', Replicate)]\<rparr>),
     (''minimax-video'',
        \<lparr>default_provider = ''replicate'', providers = [(''replicate'', Replicate)]\<rparr>)]"

text \<open>
  The two \<open>ValueError\<close>s of the registry, carrying what their messages interpolate: the
  model and \<open>list(CATALOG.keys())\<close>, respectively the provider name, the model and
  \<open>list(model_config["providers"].keys())\<close>.
\<close>

datatype registry_error =
    UnknownImageModel string "string list"
  | UnknownVideoModel string "string list"
  | ProviderNotAvailable string string "string list"

text \<open>
  \<open>provider_override or model_config["default"]\<close>: the override is \<open>None\<close> or a string,
  and Python's \<open>or\<close> takes the right operand when the left one is falsy, which for a
  string means empty.
\<close>

definition override_or :: "string option \<Rightarrow> string \<Rightarrow> string" where
  "override_or provider_override dflt =
     (case provider_override of
        None \<Rightarrow> dflt
      | Some s \<Rightarrow> (if s = [] then dflt else s))"

definition get_image_provider ::
  "string \<Rightarrow> string option \<Rightarrow> registry_error + (provider_module \<times> string)" where
  "get_image_provider model provider_override =
     (case map_of IMAGE_PROVIDERS model of
        None \<Rightarrow> Inl (UnknownImageModel model (map fst IMAGE_PROVIDERS))
      | Some cfg \<Rightarrow>
          (let provider_name = override_or provider_override (default_provider cfg) in
           case map_of (providers cfg) provider_name of
             None \<Rightarrow> Inl (ProviderNotAvailable provider_name model (map fst (providers cfg)))
           | Some provider \<Rightarrow> Inr (provider, provider_name)))"

definition get_video_provider ::
  "string \<Rightarrow> string option \<Rightarrow> registry_error + (provider_module \<times> string)" where
  "get_video_provider model provider_override =
     (case map_of VIDEO_PROVIDERS model of
        None \<Rightarrow> Inl (UnknownVideoModel model (map fst VIDEO_PROVIDERS))
      | Some cfg \<Rightarrow>
          (let provider_name = override_or provider_override (default_provider cfg) in
           case map_of (providers cfg) provider_name of
             None \<Rightarrow> Inl (ProviderNotAvailable provider_name model (map fst (providers cfg)))
           | Some provider \<Rightarrow> Inr (provider, provider_name)))"

section \<open>Replicate adapter: the single-task poll loop (tools/providers/replicate.py)\<close>

subsection \<open>Vendor data\<close>

text \<open>
  What \<open>response.json()\<close> yields: a JSON value. Objects are association lists, looked
  up with \<open>map_of\<close>; numbers are real (JSON integers and idealised floats).
\<close>

datatype json =
    JNull
  | JBool bool
  | JNum real
  | JStr string
  | JList "json list"
  | JObj "(string \<times> json) list"

text \<open>Python's truth value of a decoded JSON value, as \<open>if x:\<close> and \<open>x or y\<close> test it.\<close>

fun truthy :: "json \<Rightarrow> bool" where
  "truthy JNull = False"
| "truthy (JBool b) = b"
| "truthy (JNum n) = (n \<noteq> 0)"
| "truthy (JStr s) = (s \<noteq> [])"
| "truthy (JList xs) = (xs \<noteq> [])"
| "truthy (JObj kvs) = (kvs \<noteq> [])"

text \<open>\<open>data.get(key)\<close>: the value, or \<open>None\<close> (JSON null) when the key is absent.\<close>

definition dict_get :: "(string \<times> json) list \<Rightarrow> string \<Rightarrow> json" where
  "dict_get data key = (case map_of data key of None \<Rightarrow> JNull | Some v \<Rightarrow> v)"

text \<open>
  The part of a \<open>requests\<close> response the loop reads: \<open>response.status_code\<close>,
  \<open>response.text\<close> (the field \<open>resp_text\<close>) and \<open>response.json()\<close>, where
  \<open>json_body = None\<close> stands for a body on which \<open>response.json()\<close> raises.
\<close>

record response =
  status_code :: int
  resp_text :: string
  json_body :: "json option"

text \<open>One \<open>requests.get\<close>: it raises (a connection error, say) or returns a response.\<close>

datatype get_outcome = GetRaises string | GetReturns response

text \<open>
  The vendor as the loop sees it: the \<open>k\<close>-th request to a poll URL takes some time
  (first component, in seconds) and has an outcome.
\<close>

type_synonym vendor = "string \<Rightarrow> nat \<Rightarrow> real \<times> get_outcome"

subsection \<open>Exceptions and results\<close>

text \<open>
  Every exception the two adapters raise, with the values its message interpolates
  (where both adapters raise the same error, the vendor's name comes first), and
  \<open>OtherException\<close> for what the called libraries raise (\<open>requests\<close>, JSON decoding,
  attribute access on a body that is no dict, \<open>time.sleep\<close> on a negative length).
\<close>

datatype error =
    ReplicateAPIError int string
  | MissingIdOrPollURL "string option" "string option"
  | PollFailedAfterRetries string
  | NoUsableOutput json
  | PredictionFailed json json
  | Timeout real
  | UnsupportedImageModel string string "string list"
  | UnsupportedVideoModel string string "string list"
  | NoPayloadBuilder string string
  | NoPollURLStored string string string
  | NoPollURL string
  | OtherException string

text \<open>
  The \<open>GenerationResult\<close> dicts: \<open>{"status": "success", "task_id", "result_url"}\<close> and
  the orchestrator's \<open>{"status": "error", "task_id", "error": str(e)}\<close>, which keeps the
  exception itself here where the source keeps its message.
\<close>

datatype result =
    Success string json
  | ErrorResult string error

subsection \<open>The loop\<close>

text \<open>
  The loop's variables: \<open>elapsed\<close> is \<open>time.time() - start_time\<close>, and \<open>polls\<close> counts
  the GET requests issued so far (it indexes the vendor's replies). Time passes in the
  request and in \<open>time.sleep\<close> only.
\<close>

record loop_state =
  elapsed :: real
  retry_count :: nat
  polls :: nat

definition loop_entry :: loop_state where
  "loop_entry = \<lparr>elapsed = 0, retry_count = 0, polls = 0\<rparr>"

text \<open>How one pass through the loop body ends.\<close>

datatype control = Return result | Raise error | Again

text \<open>\<open>time.sleep(poll_interval)\<close>, which raises \<open>ValueError\<close> on a negative length.\<close>

definition sleep :: "real \<Rightarrow> loop_state \<Rightarrow> control \<times> loop_state" where
  "sleep poll_interval s =
     (if poll_interval < 0 then (Raise (OtherException ''ValueError''), s)
      else (Again, s\<lparr>elapsed := elapsed s + poll_interval\<rparr>))"

text \<open>
  The result URL of a succeeded prediction: the first element of a non-empty list, or a
  non-empty string itself; nothing otherwise.
\<close>

fun result_url_of :: "json \<Rightarrow> json option" where
  "result_url_of (JList (x # xs)) = Some x"
| "result_url_of (JStr (c # cs)) = Some (JStr (c # cs))"
| "result_url_of output = None"

text \<open>\<open>data.get("status", "unknown")\<close>.\<close>

definition status_of :: "(string \<times> json) list \<Rightarrow> json" where
  "status_of data = (case map_of data ''status'' of None \<Rightarrow> JStr ''unknown'' | Some v \<Rightarrow> v)"

text \<open>
  The loop body (lines 99 to 139), given the vendor's reply to this pass's request. The
  progress printing, which \<open>quiet\<close> switches off, is left out.
\<close>

definition poll_iteration ::
  "string \<Rightarrow> real \<Rightarrow> real \<times> get_outcome \<Rightarrow> loop_state \<Rightarrow> control \<times> loop_state" where
  "poll_iteration task_id poll_interval reply s =
     (let s1 = s\<lparr>elapsed := elapsed s + fst reply, polls := Suc (polls s)\<rparr> in
      case snd reply of
        GetRaises e \<Rightarrow> (Raise (OtherException e), s1)
      | GetReturns response \<Rightarrow>
          if status_code response \<noteq> 200 then
            (let s2 = s1\<lparr>retry_count := Suc (retry_count s1)\<rparr> in
             if retry_count s2 > 10
             then (Raise (PollFailedAfterRetries (resp_text response)), s2)
             else sleep poll_interval s2)
          else
            (case json_body response of
               None \<Rightarrow> (Raise (OtherException ''JSONDecodeError''), s1)
             | Some (JObj data) \<Rightarrow>
                 (let status = status_of data;
                      s2 = s1\<lparr>retry_count := 0\<rparr> in
                  if status = JStr ''succeeded'' then
                    (case result_url_of (dict_get data ''output'') of
                       Some result_url \<Rightarrow> (Return (Success task_id result_url), s2)
                     | None \<Rightarrow> (Raise (NoUsableOutput (JObj data)), s2))
                  else if status = JStr ''failed'' \<or> status = JStr ''canceled'' then
                    (let err = (if truthy (dict_get data ''error'')
                                then dict_get data ''error'' else status)
                     in (Raise (PredictionFailed status err), s2))
                  else sleep poll_interval s2)
             | Some other \<Rightarrow> (Raise (OtherException ''AttributeError''), s1)))"

text \<open>
  \<open>while time.time() - start_time < max_wait\<close>, and the timeout raised after it. The
  loop need not end (a zero interval and instant replies never advance the clock), so it
  is a partial function: \<open>None\<close> is a loop that runs forever. The result pairs what the
  loop returned or raised with its final state.
\<close>

partial_function (option) poll_loop ::
  "(nat \<Rightarrow> real \<times> get_outcome) \<Rightarrow> string \<Rightarrow> real \<Rightarrow> real \<Rightarrow> loop_state
     \<Rightarrow> ((error + result) \<times> loop_state) option" where
  "poll_loop replies task_id max_wait poll_interval s =
     (if elapsed s < max_wait then
        (case poll_iteration task_id poll_interval (replies (polls s)) s of
           (Return r, s') \<Rightarrow> Some (Inr r, s')
         | (Raise e, s') \<Rightarrow> Some (Inl e, s')
         | (Again, s') \<Rightarrow> poll_loop replies task_id max_wait poll_interval s')
      else Some (Inl (Timeout max_wait), s))"

text \<open>
  A reply that leaves the loop polling: a 200 response whose body is an object with a
  status other than the three terminal ones.
\<close>

fun non_terminal :: "get_outcome \<Rightarrow> bool" where
  "non_terminal (GetRaises e) = False"
| "non_terminal (GetReturns response) =
     (status_code response = 200 \<and>
      (case json_body response of
         Some (JObj data) \<Rightarrow>
           status_of data \<noteq> JStr ''succeeded'' \<and>
           status_of data \<noteq> JStr ''failed'' \<and>
           status_of data \<noteq> JStr ''canceled''
       | other \<Rightarrow> False))"

text \<open>A reply that counts as a transient failure: a response with a status other than 200.\<close>

fun transport_failure :: "get_outcome \<Rightarrow> bool" where
  "transport_failure (GetRaises e) = False"
| "transport_failure (GetReturns response) = (status_code response \<noteq> 200)"

text \<open>The last \<open>retry_count\<close> replies the loop has received were all transient failures.\<close>

definition failure_run :: "(nat \<Rightarrow> real \<times> get_outcome) \<Rightarrow> loop_state \<Rightarrow> bool" where
  "failure_run replies s =
     (retry_count s \<le> polls s \<and>
      (\<forall>k < retry_count s. transport_failure (snd (replies (polls s - Suc k)))))"

text \<open>\<open>_poll_prediction\<close> (an identifier cannot start with an underscore here).\<close>

definition poll_prediction ::
  "vendor \<Rightarrow> string \<Rightarrow> string \<Rightarrow> real \<Rightarrow> real \<Rightarrow> bool
     \<Rightarrow> ((error + result) \<times> loop_state) option" where
  "poll_prediction vendor task_id poll_url max_wait poll_interval quiet =
     poll_loop (vendor poll_url) task_id max_wait poll_interval loop_entry"

declare poll_loop.simps [code]

section \<open>Replicate adapter: submitting and polling one task\<close>

text \<open>
  Names follow the source. A private name loses its leading underscore
  (\<open>_submit_prediction\<close> is \<open>submit_prediction\<close>), and a name that both adapters define
  is prefixed with the adapter's (\<open>submit_image\<close> of \<open>replicate.py\<close> is
  \<open>replicate_submit_image\<close>).
\<close>

definition replicate_IMAGE_MODELS :: "(string \<times> string) list" where
  "replicate_IMAGE_MODELS =
     [(''flux-schnell'', ''black-forest-labs/flux-schnell''),
      (''flux-dev'', ''black-forest-labs/flux-dev'')]"

definition replicate_VIDEO_MODELS :: "(string \<times> string) list" where
  "replicate_VIDEO_MODELS =
     [(''ltx-video'', ''lightricks/ltx-video''),
      (''wan-2.1'', ''wavespeed-ai/wan2.1-i2v-480p''),
      (''cogvideox'', ''fofr/cogvideox-5b''),
      (''minimax-video'', ''minimax/video-01-live'')]"

text \<open>
  The module-level dict \<open>_task_poll_urls\<close>, task id to poll URL. Task ids and poll URLs
  are strings, as the docstrings type them.
\<close>

type_synonym poll_urls = "string \<rightharpoonup> string"

text \<open>
  What \<open>_submit_prediction\<close> reads of the decoded body of the POST response:
  \<open>data.get("id")\<close> and \<open>data.get("urls", {}).get("get")\<close>, each \<open>None\<close> when the key
  is absent or null; \<open>not x\<close> holds of \<open>None\<close> and of the empty string.
  \<open>post_json = None\<close> stands for a body on which \<open>response.json()\<close> or one of the two
  lookups raises.
\<close>

record prediction =
  pred_id :: "string option"
  pred_get_url :: "string option"

record post_response =
  post_status_code :: int
  post_text :: string
  post_json :: "prediction option"

datatype post_outcome = PostRaises string | PostReturns post_response

type_synonym payload = "(string \<times> json) list"

text \<open>The vendor's answer to a POST on a model path with an input payload.\<close>

type_synonym post_vendor = "string \<Rightarrow> payload \<Rightarrow> post_outcome"

definition submit_prediction :: "post_vendor \<Rightarrow> string \<Rightarrow> payload \<Rightarrow> error + (string \<times> string)" where
  "submit_prediction post model_path input_payload =
     (case post model_path input_payload of
        PostRaises e \<Rightarrow> Inl (OtherException e)
      | PostReturns response \<Rightarrow>
          if post_status_code response \<noteq> 200 \<and> post_status_code response \<noteq> 201
          then Inl (ReplicateAPIError (post_status_code response) (post_text response))
          else
            (case post_json response of
               None \<Rightarrow> Inl (OtherException ''JSONDecodeError'')
             | Some data \<Rightarrow>
                 (case (pred_id data, pred_get_url data) of
                    (Some task_id, Some poll_url) \<Rightarrow>
                      if task_id = [] \<or> poll_url = []
                      then Inl (MissingIdOrPollURL (pred_id data) (pred_get_url data))
                      else Inr (task_id, poll_url)
                  | other \<Rightarrow> Inl (MissingIdOrPollURL (pred_id data) (pred_get_url data)))))"

text \<open>\<open>_map_aspect_ratio_flux\<close>: \<open>mapping.get(aspect_ratio, "9:16")\<close>.\<close>

definition map_aspect_ratio_flux :: "string \<Rightarrow> string" where
  "map_aspect_ratio_flux aspect_ratio =
     (case map_of [(''9:16'', ''9:16''), (''16:9'', ''16:9''), (''1:1'', ''1:1''),
                   (''2:3'', ''2:3''), (''3:2'', ''3:2''), (''4:5'', ''4:5'')] aspect_ratio of
        None \<Rightarrow> ''9:16''
      | Some v \<Rightarrow> v)"

text \<open>
  \<open>submit_image\<close>, with the dict passed in and returned updated next to the task id.
  \<open>reference_urls\<close> and the extra keyword arguments are unused by the source.
\<close>

definition replicate_submit_image ::
  "post_vendor \<Rightarrow> poll_urls \<Rightarrow> string \<Rightarrow> string \<Rightarrow> string \<Rightarrow> string
     \<Rightarrow> error + (string \<times> poll_urls)" where
  "replicate_submit_image post task_poll_urls prompt aspect_ratio resolution model =
     (case map_of replicate_IMAGE_MODELS model of
        None \<Rightarrow> Inl (UnsupportedImageModel ''Replicate'' model (map fst replicate_IMAGE_MODELS))
      | Some model_path \<Rightarrow>
          if model_path = []
          then Inl (UnsupportedImageModel ''Replicate'' model (map fst replicate_IMAGE_MODELS))
          else
            (let output_quality = (if resolution = ''2K'' \<or> resolution = ''4K'' then 90 else 80);
                 input_payload =
                   [(''prompt'', JStr prompt),
                    (''aspect_ratio'', JStr (map_aspect_ratio_flux aspect_ratio)),
                    (''num_outputs'', JNum 1),
                    (''output_format'', JStr ''jpg''),
                    (''output_quality'', JNum output_quality)]
                   @ (if model = ''flux-dev'' then [(''guidance'', JNum 3.5)] else [])
             in case submit_prediction post model_path input_payload of
                  Inl e \<Rightarrow> Inl e
                | Inr (task_id, poll_url) \<Rightarrow> Inr (task_id, task_poll_urls(task_id \<mapsto> poll_url))))"

text \<open>
  \<open>poll_image\<close>. The lookup fails on an absent key and on an empty URL alike
  (\<open>if not poll_url\<close>); it then raises before the loop is entered, which the entry state
  (no request issued) records.
\<close>

definition replicate_poll_image ::
  "vendor \<Rightarrow> poll_urls \<Rightarrow> string \<Rightarrow> real \<Rightarrow> real \<Rightarrow> bool
     \<Rightarrow> ((error + result) \<times> loop_state) option" where
  "replicate_poll_image vendor task_poll_urls task_id max_wait poll_interval quiet =
     (case task_poll_urls task_id of
        None \<Rightarrow> Some (Inl (NoPollURLStored ''Replicate'' task_id ''submit_image''), loop_entry)
      | Some poll_url \<Rightarrow>
          if poll_url = []
          then Some (Inl (NoPollURLStored ''Replicate'' task_id ''submit_image''), loop_entry)
          else poll_prediction vendor task_id poll_url max_wait poll_interval quiet)"

text \<open>
  \<open>_build_video_payload\<close>. The argument \<open>duration\<close> is the value of \<open>int(duration)\<close>,
  \<open>None\<close> when the conversion raises; the last model never converts it. An image URL is
  added when it is truthy.
\<close>

definition image_entry :: "string \<Rightarrow> string option \<Rightarrow> payload" where
  "image_entry key image_url =
     (case image_url of
        None \<Rightarrow> []
      | Some u \<Rightarrow> (if u = [] then [] else [(key, JStr u)]))"

definition build_video_payload ::
  "string \<Rightarrow> string option \<Rightarrow> string \<Rightarrow> int option \<Rightarrow> string \<Rightarrow> error + payload" where
  "build_video_payload prompt image_url model duration aspect_ratio =
     (if model = ''ltx-video'' then
        (case duration of
           None \<Rightarrow> Inl (OtherException ''ValueError'')
         | Some d \<Rightarrow> Inr ([(''prompt'', JStr prompt), (''num_frames'', JNum (real_of_int (min (d * 24) 257)))]
                         @ image_entry ''image'' image_url))
      else if model = ''wan-2.1'' then
        (case duration of
           None \<Rightarrow> Inl (OtherException ''ValueError'')
         | Some d \<Rightarrow> Inr ([(''prompt'', JStr prompt), (''num_frames'', JNum (real_of_int (min (d * 16) 81)))]
                         @ image_entry ''image'' image_url))
      else if model = ''cogvideox'' then
        (case duration of
           None \<Rightarrow> Inl (OtherException ''ValueError'')
         | Some d \<Rightarrow> Inr ([(''prompt'', JStr prompt), (''num_frames'', JNum (real_of_int (min (d * 8) 49)))]
                         @ image_entry ''image'' image_url))
      else if model = ''minimax-video'' then
        Inr ([(''prompt'', JStr prompt)] @ image_entry ''first_frame_image'' image_url)
      else Inl (NoPayloadBuilder ''Replicate'' model))"

definition replicate_submit_video ::
  "post_vendor \<Rightarrow> poll_urls \<Rightarrow> string \<Rightarrow> string option \<Rightarrow> string \<Rightarrow> int option \<Rightarrow> string
     \<Rightarrow> error + (string \<times> poll_urls)" where
  "replicate_submit_video post task_poll_urls prompt image_url model duration aspect_ratio =
     (case map_of replicate_VIDEO_MODELS model of
        None \<Rightarrow> Inl (UnsupportedVideoModel ''Replicate'' model (map fst replicate_VIDEO_MODELS))
      | Some model_path \<Rightarrow>
          if model_path = []
          then Inl (UnsupportedVideoModel ''Replicate'' model (map fst replicate_VIDEO_MODELS))
          else
            (case build_video_payload prompt image_url model duration aspect_ratio of
               Inl e \<Rightarrow> Inl e
             | Inr input_payload \<Rightarrow>
                 (case submit_prediction post model_path input_payload of
                    Inl e \<Rightarrow> Inl e
                  | Inr (task_id, poll_url) \<Rightarrow>
                      Inr (task_id, task_poll_urls(task_id \<mapsto> poll_url)))))"

definition replicate_poll_video ::
  "vendor \<Rightarrow> poll_urls \<Rightarrow> string \<Rightarrow> real \<Rightarrow> real \<Rightarrow> bool
     \<Rightarrow> ((error + result) \<times> loop_state) option" where
  "replicate_poll_video vendor task_poll_urls task_id max_wait poll_interval quiet =
     (case task_poll_urls task_id of
        None \<Rightarrow> Some (Inl (NoPollURLStored ''Replicate'' task_id ''submit_video''), loop_entry)
      | Some poll_url \<Rightarrow>
          if poll_url = []
          then Some (Inl (NoPollURLStored ''Replicate'' task_id ''submit_video''), loop_entry)
          else poll_prediction vendor task_id poll_url max_wait poll_interval quiet)"

text \<open>
  The states of the dict that a run of the adapter reaches from the empty dict of module
  import, together with the set of task ids its submit calls have returned so far. Only
  the two submit functions write the dict.
\<close>

inductive adapter_run :: "poll_urls \<Rightarrow> string set \<Rightarrow> bool" where
  at_import: "adapter_run Map.empty {}"
| after_submit_image:
    "adapter_run urls issued \<Longrightarrow>
     replicate_submit_image post urls prompt aspect_ratio resolution model = Inr (task_id, urls') \<Longrightarrow>
     adapter_run urls' (insert task_id issued)"
| after_submit_video:
    "adapter_run urls issued \<Longrightarrow>
     replicate_submit_video post urls prompt image_url model duration aspect_ratio = Inr (task_id, urls') \<Longrightarrow>
     adapter_run urls' (insert task_id issued)"

text \<open>The unknown-handle error of the two poll functions.\<close>

fun unknown_handle :: "((error + result) \<times> loop_state) option \<Rightarrow> bool" where
  "unknown_handle (Some (Inl (NoPollURLStored provider task_id hint), s)) = True"
| "unknown_handle r = False"

section \<open>WaveSpeed adapter (tools/providers/wavespeed.py)\<close>

definition wavespeed_IMAGE_MODELS :: "(string \<times> string) list" where
  "wavespeed_IMAGE_MODELS = [(''gpt-image-1.5'', ''openai/gpt-image-1.5/edit'')]"

definition wavespeed_VIDEO_MODELS :: "(string \<times> string) list" where
  "wavespeed_VIDEO_MODELS =
     [(''kling-3.0'', ''kwaivgi/kling-v3.0-pro/image-to-video''),
      (''kling-3.0-std'', ''kwaivgi/kling-v3.0-std/image-to-video''),
      (''sora-2'', ''openai/sora-2/image-to-video''),
      (''sora-2-pro'', ''openai/sora-2/image-to-video-pro'')]"

text \<open>
  The adapter imports \<open>submit_wavespeed_task\<close> and \<open>poll_wavespeed_task\<close> from the
  package's \<open>utils\<close> module. They are arguments here: a submitter takes the model id and
  the payload and raises or returns the task id and the poll URL of its \<open>task_info\<close>; a
  poller takes what \<open>poll_wavespeed_task\<close> takes and returns, raises, or never ends
  (\<open>None\<close>).
\<close>

type_synonym task_submitter = "string \<Rightarrow> payload \<Rightarrow> error + (string \<times> string)"

type_synonym task_poller =
  "string \<Rightarrow> string \<Rightarrow> real \<Rightarrow> real \<Rightarrow> bool \<Rightarrow> (error + result) option"

text \<open>\<open>_map_image_size\<close> and \<open>_map_image_quality\<close>.\<close>

definition map_image_size :: "string \<Rightarrow> string" where
  "map_image_size aspect_ratio =
     (case map_of [(''9:16'', ''1024*1536''), (''2:3'', ''1024*1536''),
                   (''16:9'', ''1536*1024''), (''3:2'', ''1536*1024''),
                   (''1:1'', ''1024*1024'')] aspect_ratio of
        None \<Rightarrow> ''auto''
      | Some v \<Rightarrow> v)"

definition map_image_quality :: "string \<Rightarrow> string" where
  "map_image_quality resolution =
     (if resolution = ''2K'' \<or> resolution = ''4K'' then ''high'' else ''medium'')"

text \<open>\<open>reference_urls\<close> is \<open>None\<close> or a list; it is sent when it is a non-empty list.\<close>

definition wavespeed_submit_image ::
  "task_submitter \<Rightarrow> poll_urls \<Rightarrow> string \<Rightarrow> string list option \<Rightarrow> string \<Rightarrow> string \<Rightarrow> string
     \<Rightarrow> error + (string \<times> poll_urls)" where
  "wavespeed_submit_image submit_wavespeed_task task_poll_urls prompt reference_urls
       aspect_ratio resolution model =
     (case map_of wavespeed_IMAGE_MODELS model of
        None \<Rightarrow> Inl (UnsupportedImageModel ''WaveSpeed'' model (map fst wavespeed_IMAGE_MODELS))
      | Some model_id \<Rightarrow>
          if model_id = []
          then Inl (UnsupportedImageModel ''WaveSpeed'' model (map fst wavespeed_IMAGE_MODELS))
          else
            (let payload =
                   [(''prompt'', JStr prompt),
                    (''size'', JStr (map_image_size aspect_ratio)),
                    (''quality'', JStr (map_image_quality resolution)),
                    (''input_fidelity'', JStr ''high''),
                    (''output_format'', JStr ''jpeg'')]
                   @ (case reference_urls of
                        None \<Rightarrow> []
                      | Some urls \<Rightarrow>
                          (if urls = [] then [] else [(''images'', JList (map JStr urls))]))
             in case submit_wavespeed_task model_id payload of
                  Inl e \<Rightarrow> Inl e
                | Inr (task_id, poll_url) \<Rightarrow> Inr (task_id, task_poll_urls(task_id \<mapsto> poll_url))))"

definition wavespeed_poll_image ::
  "task_poller \<Rightarrow> poll_urls \<Rightarrow> string \<Rightarrow> real \<Rightarrow> real \<Rightarrow> bool \<Rightarrow> (error + result) option" where
  "wavespeed_poll_image poll_wavespeed_task task_poll_urls task_id max_wait poll_interval quiet =
     (case task_poll_urls task_id of
        None \<Rightarrow> Some (Inl (NoPollURLStored ''WaveSpeed'' task_id ''submit_image''))
      | Some poll_url \<Rightarrow>
          if poll_url = []
          then Some (Inl (NoPollURLStored ''WaveSpeed'' task_id ''submit_image''))
          else poll_wavespeed_task task_id poll_url max_wait poll_interval quiet)"

text \<open>
  \<open>submit_video\<close>. As in the Replicate adapter, \<open>duration\<close> is the value of
  \<open>int(duration)\<close>, \<open>None\<close> when the conversion raises. \<open>model.startswith(p)\<close> compares
  the first \<open>length p\<close> characters.
\<close>

definition wavespeed_video_payload ::
  "string \<Rightarrow> string option \<Rightarrow> string \<Rightarrow> int option \<Rightarrow> error + payload" where
  "wavespeed_video_payload prompt image_url model duration =
     (if take 5 model = ''kling'' then
        (case duration of
           None \<Rightarrow> Inl (OtherException ''ValueError'')
         | Some d \<Rightarrow>
             Inr ([(''prompt'', JStr prompt), (''duration'', JNum (real_of_int d)),
                   (''cfg_scale'', JNum 0.5), (''sound'', JBool True)]
                  @ image_entry ''image'' image_url))
      else if take 4 model = ''sora'' then
        (case duration of
           None \<Rightarrow> Inl (OtherException ''ValueError'')
         | Some dur_int \<Rightarrow>
             (let ws_duration = (if dur_int \<le> 5 then 4 else if dur_int \<le> 10 then 8 else 12)
              in Inr ([(''prompt'', JStr prompt), (''duration'', JNum ws_duration)]
                      @ (if model = ''sora-2-pro'' then [(''resolution'', JStr ''1080p'')] else [])
                      @ image_entry ''image'' image_url)))
      else Inl (NoPayloadBuilder ''WaveSpeed'' model))"

definition wavespeed_submit_video ::
  "task_submitter \<Rightarrow> poll_urls \<Rightarrow> string \<Rightarrow> string option \<Rightarrow> string \<Rightarrow> int option \<Rightarrow> string
     \<Rightarrow> string \<Rightarrow> error + (string \<times> poll_urls)" where
  "wavespeed_submit_video submit_wavespeed_task task_poll_urls prompt image_url model duration
       aspect_ratio mode =
     (case (if model = ''kling-3.0'' \<and> mode = ''std''
            then map_of wavespeed_VIDEO_MODELS ''kling-3.0-std''
            else map_of wavespeed_VIDEO_MODELS model) of
        None \<Rightarrow> Inl (UnsupportedVideoModel ''WaveSpeed'' model (map fst wavespeed_VIDEO_MODELS))
      | Some model_id \<Rightarrow>
          if model_id = []
          then Inl (UnsupportedVideoModel ''WaveSpeed'' model (map fst wavespeed_VIDEO_MODELS))
          else
            (case wavespeed_video_payload prompt image_url model duration of
               Inl e \<Rightarrow> Inl e
             | Inr payload \<Rightarrow>
                 (case submit_wavespeed_task model_id payload of
                    Inl e \<Rightarrow> Inl e
                  | Inr (task_id, poll_url) \<Rightarrow>
                      Inr (task_id, task_poll_urls(task_id \<mapsto> poll_url)))))"

definition wavespeed_poll_video ::
  "task_poller \<Rightarrow> poll_urls \<Rightarrow> string \<Rightarrow> real \<Rightarrow> real \<Rightarrow> bool \<Rightarrow> (error + result) option" where
  "wavespeed_poll_video poll_wavespeed_task task_poll_urls task_id max_wait poll_interval quiet =
     (case task_poll_urls task_id of
        None \<Rightarrow> Some (Inl (NoPollURLStored ''WaveSpeed'' task_id ''submit_video''))
      | Some poll_url \<Rightarrow>
          if poll_url = []
          then Some (Inl (NoPollURLStored ''WaveSpeed'' task_id ''submit_video''))
          else poll_wavespeed_task task_id poll_url max_wait poll_interval quiet)"

section \<open>Parallel polling (\<open>poll_tasks_parallel\<close> of both adapters)\<close>

text \<open>\<open>max_workers = min(total, 20)\<close>, the size of the thread pool, with \<open>n\<close> for \<open>total\<close>.\<close>

definition max_workers :: "nat \<Rightarrow> nat" where
  "max_workers n = min n 20"

text \<open>
  The \<open>try\<close> and \<open>except Exception\<close> around \<open>future.result()\<close>: a result is stored as it
  is, an exception becomes the error dict of the task.
\<close>

definition to_result :: "string \<Rightarrow> error + result \<Rightarrow> result" where
  "to_result tid out = (case out of Inr r \<Rightarrow> r | Inl e \<Rightarrow> ErrorResult tid e)"

text \<open>
  \<open>for future in as_completed(futures)\<close>. A future is the pair of its position in
  \<open>task_ids\<close> and its task id (\<open>futures[future]\<close>); \<open>outcome i tid\<close> is what future \<open>i\<close>
  ends with, \<open>None\<close> if it never ends, in which case the loop waits for ever. The list
  is the order in which the futures complete, which the threads decide.
\<close>

fun as_completed_loop ::
  "(nat \<Rightarrow> string \<Rightarrow> (error + result) option) \<Rightarrow> (nat \<times> string) list \<Rightarrow> (string \<rightharpoonup> result)
     \<Rightarrow> (string \<rightharpoonup> result) option" where
  "as_completed_loop outcome [] results = Some results"
| "as_completed_loop outcome ((i, tid) # rest) results =
     (case outcome i tid of
        None \<Rightarrow> None
      | Some out \<Rightarrow> as_completed_loop outcome rest (results(tid \<mapsto> to_result tid out)))"

text \<open>
  The body shared by both adapters, from \<open>if not task_ids\<close> on. The pool constructor
  raises \<open>ValueError\<close> on a size of zero.
\<close>

definition run_pool ::
  "(nat \<Rightarrow> string \<Rightarrow> (error + result) option) \<Rightarrow> string list \<Rightarrow> (nat \<times> string) list
     \<Rightarrow> (error + (string \<rightharpoonup> result)) option" where
  "run_pool poll_one task_ids completion =
     (if task_ids = [] then Some (Inr Map.empty)
      else if max_workers (length task_ids) = 0 then Some (Inl (OtherException ''ValueError''))
      else map_option Inr (as_completed_loop poll_one completion Map.empty))"

text \<open>
  Replicate's \<open>_poll_one\<close> and \<open>poll_tasks_parallel\<close>. Each future has its own view of
  the vendor, \<open>vendors i\<close>.
\<close>

definition replicate_poll_one ::
  "vendor \<Rightarrow> poll_urls \<Rightarrow> real \<Rightarrow> real \<Rightarrow> string \<Rightarrow> (error + result) option" where
  "replicate_poll_one vendor task_poll_urls max_wait poll_interval tid =
     (case task_poll_urls tid of
        None \<Rightarrow> Some (Inl (NoPollURL tid))
      | Some poll_url \<Rightarrow>
          if poll_url = [] then Some (Inl (NoPollURL tid))
          else map_option fst (poll_prediction vendor tid poll_url max_wait poll_interval True))"

definition replicate_poll_tasks_parallel ::
  "(nat \<Rightarrow> vendor) \<Rightarrow> poll_urls \<Rightarrow> string list \<Rightarrow> real \<Rightarrow> real \<Rightarrow> (nat \<times> string) list
     \<Rightarrow> (error + (string \<rightharpoonup> result)) option" where
  "replicate_poll_tasks_parallel vendors task_poll_urls task_ids max_wait poll_interval completion =
     run_pool (\<lambda>i tid. replicate_poll_one (vendors i) task_poll_urls max_wait poll_interval tid)
       task_ids completion"

text \<open>WaveSpeed's, whose \<open>_poll_one\<close> calls \<open>poll_video\<close>; each future has its own poller.\<close>

definition wavespeed_poll_one ::
  "task_poller \<Rightarrow> poll_urls \<Rightarrow> real \<Rightarrow> real \<Rightarrow> string \<Rightarrow> (error + result) option" where
  "wavespeed_poll_one poll_wavespeed_task task_poll_urls max_wait poll_interval tid =
     wavespeed_poll_video poll_wavespeed_task task_poll_urls tid max_wait poll_interval True"

definition wavespeed_poll_tasks_parallel ::
  "(nat \<Rightarrow> task_poller) \<Rightarrow> poll_urls \<Rightarrow> string list \<Rightarrow> real \<Rightarrow> real \<Rightarrow> (nat \<times> string) list
     \<Rightarrow> (error + (string \<rightharpoonup> result)) option" where
  "wavespeed_poll_tasks_parallel pollers task_poll_urls task_ids max_wait poll_interval completion =
     run_pool (\<lambda>i tid. wavespeed_poll_one (pollers i) task_poll_urls max_wait poll_interval tid)
       task_ids completion"

section \<open>Sample vendors\<close>

text \<open>Concrete replies and vendors, at which the theorems below are instantiated.\<close>

definition processing_response :: response where
  "processing_response =
     \<lparr>status_code = 200, resp_text = [],
      json_body = Some (JObj [(''status'', JStr ''processing'')])\<rparr>"

definition unavailable_response :: response where
  "unavailable_response =
     \<lparr>status_code = 503, resp_text = ''Service Unavailable'', json_body = None\<rparr>"

definition succeeded_response :: "json \<Rightarrow> response" where
  "succeeded_response output =
     \<lparr>status_code = 200, resp_text = [],
      json_body = Some (JObj [(''status'', JStr ''succeeded''), (''output'', output)])\<rparr>"

text \<open>A vendor that answers at once and reports \<open>processing\<close> for ever.\<close>

definition always_processing :: vendor where
  "always_processing poll_url k = (0, GetReturns processing_response)"

text \<open>
  Ten 503 responses, one \<open>processing\<close>, ten more 503 responses, then success with two
  URLs.
\<close>

definition flaky_vendor :: vendor where
  "flaky_vendor poll_url k =
     (0, GetReturns
           (if k < 10 then unavailable_response
            else if k = 10 then processing_response
            else if k < 21 then unavailable_response
            else succeeded_response (JList [JStr ''u1'', JStr ''u2''])))"

text \<open>A vendor that is unavailable for ever.\<close>

definition always_unavailable :: vendor where
  "always_unavailable poll_url k = (0, GetReturns unavailable_response)"

text \<open>
  Tasks polled in parallel: the first succeeds, the request of the second raises, the
  third never leaves \<open>processing\<close>. Task \<open>d\<close> has no poll URL stored.
\<close>

definition sample_urls :: poll_urls where
  "sample_urls = [''a'' \<mapsto> ''https://poll/a'', ''b'' \<mapsto> ''https://poll/b'',
                  ''c'' \<mapsto> ''https://poll/c'']"

definition sample_vendors :: "nat \<Rightarrow> vendor" where
  "sample_vendors i poll_url k =
     (if i = 0 then (1, GetReturns (succeeded_response (JList [JStr ''u1'', JStr ''u2''])))
      else if i = 1 then (1, GetRaises ''ConnectionError'')
      else (0, GetReturns processing_response))"

definition sample_pollers :: "nat \<Rightarrow> task_poller" where
  "sample_pollers i task_id poll_url max_wait poll_interval quiet =
     Some (if i = 1 then Inl (OtherException ''ConnectionError'')
           else Inr (Success task_id (JStr poll_url)))"

text \<open>A vendor that accepts every submission as task \<open>t1\<close>, and a WaveSpeed submitter.\<close>

definition accepting_post :: post_vendor where
  "accepting_post model_path input_payload =
     PostReturns \<lparr>post_status_code = 201, post_text = [],
                  post_json = Some \<lparr>pred_id = Some ''t1'',
                                     pred_get_url = Some ''https://poll/t1''\<rparr>\<rparr>"

definition accepting_submitter :: task_submitter where
  "accepting_submitter model_id payload = Inr (''w1'', ''https://poll/w1'')"

section \<open>Registry: resolution of defaults and overrides\<close>

lemma image_keys_distinct: "distinct (map fst IMAGE_PROVIDERS)"
  by (simp add: IMAGE_PROVIDERS_def)

lemma video_keys_distinct: "distinct (map fst VIDEO_PROVIDERS)"
  by (simp add: VIDEO_PROVIDERS_def)

lemma image_lookup: "(m, cfg) \<in> set IMAGE_PROVIDERS \<Longrightarrow> map_of IMAGE_PROVIDERS m = Some cfg"
  using image_keys_distinct by (rule map_of_is_SomeI)

lemma video_lookup: "(m, cfg) \<in> set VIDEO_PROVIDERS \<Longrightarrow> map_of VIDEO_PROVIDERS m = Some cfg"
  using video_keys_distinct by (rule map_of_is_SomeI)

lemma image_default_member:
  "\<forall>(m, cfg) \<in> set IMAGE_PROVIDERS.
     default_provider cfg \<noteq> [] \<and> (\<exists>p. map_of (providers cfg) (default_provider cfg) = Some p)"
  by (simp add: IMAGE_PROVIDERS_def)

lemma video_default_member:
  "\<forall>(m, cfg) \<in> set VIDEO_PROVIDERS.
     default_provider cfg \<noteq> [] \<and> (\<exists>p. map_of (providers cfg) (default_provider cfg) = Some p)"
  by (simp add: VIDEO_PROVIDERS_def)

lemma override_or_simps:
  "override_or None d = d"
  "override_or (Some []) d = d"
  "s \<noteq> [] \<Longrightarrow> override_or (Some s) d = s"
  by (simp_all add: override_or_def)

lemma get_image_provider_known:
  "(m, cfg) \<in> set IMAGE_PROVIDERS \<Longrightarrow>
   get_image_provider m ov =
     (case map_of (providers cfg) (override_or ov (default_provider cfg)) of
        None \<Rightarrow> Inl (ProviderNotAvailable (override_or ov (default_provider cfg)) m (map fst (providers cfg)))
      | Some p \<Rightarrow> Inr (p, override_or ov (default_provider cfg)))"
  by (simp add: get_image_provider_def image_lookup Let_def)

lemma get_video_provider_known:
  "(m, cfg) \<in> set VIDEO_PROVIDERS \<Longrightarrow>
   get_video_provider m ov =
     (case map_of (providers cfg) (override_or ov (default_provider cfg)) of
        None \<Rightarrow> Inl (ProviderNotAvailable (override_or ov (default_provider cfg)) m (map fst (providers cfg)))
      | Some p \<Rightarrow> Inr (p, override_or ov (default_provider cfg)))"
  by (simp add: get_video_provider_def video_lookup Let_def)

text \<open>
  Claim C5. For every entry of the image catalog, and for every entry of the video
  catalog, the lookup with no override returns the module stored under the entry's
  default name, paired with that name; in particular the default name is a key of the
  entry's own \<open>providers\<close> dict.
\<close>

theorem default_provider_resolution:
  "(\<forall>(m, cfg) \<in> set IMAGE_PROVIDERS.
      \<exists>p. map_of (providers cfg) (default_provider cfg) = Some p \<and>
          get_image_provider m None = Inr (p, default_provider cfg)) \<and>
   (\<forall>(m, cfg) \<in> set VIDEO_PROVIDERS.
      \<exists>p. map_of (providers cfg) (default_provider cfg) = Some p \<and>
          get_video_provider m None = Inr (p, default_provider cfg))"
proof (intro conjI ballI)
  fix x assume x: "x \<in> set IMAGE_PROVIDERS"
  obtain m cfg where mc: "x = (m, cfg)" by (cases x)
  from x mc image_default_member obtain p
    where p: "map_of (providers cfg) (default_provider cfg) = Some p" by fastforce
  from x mc have "get_image_provider m None = Inr (p, default_provider cfg)"
    by (simp add: get_image_provider_known override_or_simps p)
  with p mc show "case x of (m, cfg) \<Rightarrow>
      \<exists>p. map_of (providers cfg) (default_provider cfg) = Some p \<and>
          get_image_provider m None = Inr (p, default_provider cfg)" by simp
next
  fix x assume x: "x \<in> set VIDEO_PROVIDERS"
  obtain m cfg where mc: "x = (m, cfg)" by (cases x)
  from x mc video_default_member obtain p
    where p: "map_of (providers cfg) (default_provider cfg) = Some p" by fastforce
  from x mc have "get_video_provider m None = Inr (p, default_provider cfg)"
    by (simp add: get_video_provider_known override_or_simps p)
  with p mc show "case x of (m, cfg) \<Rightarrow>
      \<exists>p. map_of (providers cfg) (default_provider cfg) = Some p \<and>
          get_video_provider m None = Inr (p, default_provider cfg)" by simp
qed

text \<open>The theorem at \<open>nano-banana-pro\<close> and at \<open>kling-3.0\<close>.\<close>

theorem default_provider_resolution_witness:
  "(''nano-banana-pro'', \<lparr>default_provider = ''google'', providers = [(''google'', Google), (''kie'', Kie)]\<rparr>)
      \<in> set IMAGE_PROVIDERS \<and>
   get_image_provider ''nano-banana-pro'' None = Inr (Google, ''google'') \<and>
   (''kling-3.0'', \<lparr>default_provider = ''wavespeed'', providers = [(''kie'', Kie), (''wavespeed'', WaveSpeed)]\<rparr>)
      \<in> set VIDEO_PROVIDERS \<and>
   get_video_provider ''kling-3.0'' None = Inr (WaveSpeed, ''wavespeed'')"
proof -
  let ?ic = "\<lparr>default_provider = ''google'', providers = [(''google'', Google), (''kie'', Kie)]\<rparr>"
  let ?vc = "\<lparr>default_provider = ''wavespeed'', providers = [(''kie'', Kie), (''wavespeed'', WaveSpeed)]\<rparr>"
  have i: "(''nano-banana-pro'', ?ic) \<in> set IMAGE_PROVIDERS"
    by (simp add: IMAGE_PROVIDERS_def)
  have v: "(''kling-3.0'', ?vc) \<in> set VIDEO_PROVIDERS"
    by (simp add: VIDEO_PROVIDERS_def)
  from default_provider_resolution i
  have "\<exists>p. map_of (providers ?ic) (default_provider ?ic) = Some p \<and>
          get_image_provider ''nano-banana-pro'' None = Inr (p, default_provider ?ic)"
    by blast
  then have gi: "get_image_provider ''nano-banana-pro'' None = Inr (Google, ''google'')"
    by simp
  from default_provider_resolution v
  have "\<exists>p. map_of (providers ?vc) (default_provider ?vc) = Some p \<and>
          get_video_provider ''kling-3.0'' None = Inr (p, default_provider ?vc)"
    by blast
  then have gv: "get_video_provider ''kling-3.0'' None = Inr (WaveSpeed, ''wavespeed'')"
    by simp
  from i gi v gv show ?thesis by blast
qed



text \<open>
  Claim C6, as stated, at the empty override. \<open>flux-dev\<close> and \<open>veo-3.1\<close> are
  catalog models, the empty string is not a key of their \<open>providers\<close> dicts, and yet
  the lookup returns the default provider instead of raising: \<open>provider_override or
  model_config["default"]\<close> replaces every falsy override by the default.
\<close>

theorem registry_override_counterexample:
  "map_of IMAGE_PROVIDERS ''flux-dev'' =
      Some \<lparr>default_provider = ''replicate'', providers = [(''replicate'', Replicate)]\<rparr> \<and>
   '''' \<notin> set (map fst [(''replicate'', Replicate)]) \<and>
   get_image_provider ''flux-dev'' (Some '''') = Inr (Replicate, ''replicate'') \<and>
   map_of VIDEO_PROVIDERS ''veo-3.1'' =
      Some \<lparr>default_provider = ''google'', providers = [(''google'', Google)]\<rparr> \<and>
   '''' \<notin> set (map fst [(''google'', Google)]) \<and>
   get_video_provider ''veo-3.1'' (Some '''') = Inr (Google, ''google'')"
  by (simp add: get_image_provider_def get_video_provider_def IMAGE_PROVIDERS_def
      VIDEO_PROVIDERS_def override_or_def)

lemma map_of_absent: "k \<notin> set (map fst xs) \<Longrightarrow> map_of xs k = None"
  by (simp add: map_of_eq_None_iff)

text \<open>
  Claim C6, amended. A model that is not a key of the kind's catalog raises the
  unknown-model error, which carries the model and the list of catalog keys, whatever the
  override. For a catalog model, a non-empty override that is not a key of the model's
  \<open>providers\<close> dict raises the provider-unavailable error, which carries the requested
  name, the model and the list of that model's provider names.
\<close>

theorem registry_fail_fast:
  "(model \<notin> set (map fst IMAGE_PROVIDERS) \<longrightarrow>
      get_image_provider model ov = Inl (UnknownImageModel model (map fst IMAGE_PROVIDERS))) \<and>
   (model \<notin> set (map fst VIDEO_PROVIDERS) \<longrightarrow>
      get_video_provider model ov = Inl (UnknownVideoModel model (map fst VIDEO_PROVIDERS))) \<and>
   ((model, cfg) \<in> set IMAGE_PROVIDERS \<and> name \<noteq> [] \<and> name \<notin> set (map fst (providers cfg)) \<longrightarrow>
      get_image_provider model (Some name) =
        Inl (ProviderNotAvailable name model (map fst (providers cfg)))) \<and>
   ((model, cfg) \<in> set VIDEO_PROVIDERS \<and> name \<noteq> [] \<and> name \<notin> set (map fst (providers cfg)) \<longrightarrow>
      get_video_provider model (Some name) =
        Inl (ProviderNotAvailable name model (map fst (providers cfg))))"
proof (intro conjI impI)
  assume "model \<notin> set (map fst IMAGE_PROVIDERS)"
  then have "map_of IMAGE_PROVIDERS model = None" by (rule map_of_absent)
  then show "get_image_provider model ov = Inl (UnknownImageModel model (map fst IMAGE_PROVIDERS))"
    by (simp add: get_image_provider_def)
next
  assume "model \<notin> set (map fst VIDEO_PROVIDERS)"
  then have "map_of VIDEO_PROVIDERS model = None" by (rule map_of_absent)
  then show "get_video_provider model ov = Inl (UnknownVideoModel model (map fst VIDEO_PROVIDERS))"
    by (simp add: get_video_provider_def)
next
  assume a: "(model, cfg) \<in> set IMAGE_PROVIDERS \<and> name \<noteq> [] \<and> name \<notin> set (map fst (providers cfg))"
  then have "map_of (providers cfg) name = None" by (simp add: map_of_absent)
  with a show "get_image_provider model (Some name) =
        Inl (ProviderNotAvailable name model (map fst (providers cfg)))"
    by (simp add: get_image_provider_known [of model cfg] override_or_simps)
next
  assume a: "(model, cfg) \<in> set VIDEO_PROVIDERS \<and> name \<noteq> [] \<and> name \<notin> set (map fst (providers cfg))"
  then have "map_of (providers cfg) name = None" by (simp add: map_of_absent)
  with a show "get_video_provider model (Some name) =
        Inl (ProviderNotAvailable name model (map fst (providers cfg)))"
    by (simp add: get_video_provider_known [of model cfg] override_or_simps)
qed

text \<open>The four cases at an unknown model and at the override \<open>kie\<close>.\<close>

theorem registry_fail_fast_witness:
  "''dall-e'' \<notin> set (map fst IMAGE_PROVIDERS) \<and>
   get_image_provider ''dall-e'' None =
     Inl (UnknownImageModel ''dall-e''
       [''nano-banana'', ''nano-banana-pro'', ''gpt-image-1.5'', ''flux-schnell'', ''flux-dev'']) \<and>
   ''dall-e'' \<notin> set (map fst VIDEO_PROVIDERS) \<and>
   get_video_provider ''dall-e'' None =
     Inl (UnknownVideoModel ''dall-e''
       [''kling-3.0'', ''sora-2'', ''sora-2-pro'', ''veo-3.1'', ''ltx-video'', ''wan-2.1'',
        ''cogvideox'', ''minimax-video'']) \<and>
   (''flux-dev'', \<lparr>default_provider = ''replicate'', providers = [(''replicate'', Replicate)]\<rparr>)
      \<in> set IMAGE_PROVIDERS \<and>
   get_image_provider ''flux-dev'' (Some ''kie'') =
     Inl (ProviderNotAvailable ''kie'' ''flux-dev'' [''replicate'']) \<and>
   (''veo-3.1'', \<lparr>default_provider = ''google'', providers = [(''google'', Google)]\<rparr>)
      \<in> set VIDEO_PROVIDERS \<and>
   get_video_provider ''veo-3.1'' (Some ''kie'') =
     Inl (ProviderNotAvailable ''kie'' ''veo-3.1'' [''google''])"
proof -
  let ?ic = "\<lparr>default_provider = ''replicate'', providers = [(''replicate'', Replicate)]\<rparr>"
  let ?vc = "\<lparr>default_provider = ''google'', providers = [(''google'', Google)]\<rparr>"
  have ki: "map fst IMAGE_PROVIDERS =
      [''nano-banana'', ''nano-banana-pro'', ''gpt-image-1.5'', ''flux-schnell'', ''flux-dev'']"
    by (simp add: IMAGE_PROVIDERS_def)
  have kv: "map fst VIDEO_PROVIDERS =
      [''kling-3.0'', ''sora-2'', ''sora-2-pro'', ''veo-3.1'', ''ltx-video'', ''wan-2.1'',
        ''cogvideox'', ''minimax-video'']"
    by (simp add: VIDEO_PROVIDERS_def)
  have ni: "''dall-e'' \<notin> set (map fst IMAGE_PROVIDERS)" by (simp add: ki)
  have nv: "''dall-e'' \<notin> set (map fst VIDEO_PROVIDERS)" by (simp add: kv)
  have mi: "(''flux-dev'', ?ic) \<in> set IMAGE_PROVIDERS" by (simp add: IMAGE_PROVIDERS_def)
  have mv: "(''veo-3.1'', ?vc) \<in> set VIDEO_PROVIDERS" by (simp add: VIDEO_PROVIDERS_def)
  have oi: "''kie'' \<noteq> [] \<and> ''kie'' \<notin> set (map fst (providers ?ic))" by simp
  have ov: "''kie'' \<noteq> [] \<and> ''kie'' \<notin> set (map fst (providers ?vc))" by simp
  from registry_fail_fast [of "''dall-e''" None ?ic "''kie''"] ni nv
  have a: "get_image_provider ''dall-e'' None = Inl (UnknownImageModel ''dall-e'' (map fst IMAGE_PROVIDERS))"
    and b: "get_video_provider ''dall-e'' None = Inl (UnknownVideoModel ''dall-e'' (map fst VIDEO_PROVIDERS))"
    by blast+
  from registry_fail_fast [of "''flux-dev''" None ?ic "''kie''"] mi oi
  have c: "get_image_provider ''flux-dev'' (Some ''kie'') =
      Inl (ProviderNotAvailable ''kie'' ''flux-dev'' (map fst (providers ?ic)))"
    by blast
  from registry_fail_fast [of "''veo-3.1''" None ?vc "''kie''"] mv ov
  have d: "get_video_provider ''veo-3.1'' (Some ''kie'') =
      Inl (ProviderNotAvailable ''kie'' ''veo-3.1'' (map fst (providers ?vc)))"
    by blast
  from a b c d ni nv mi mv show ?thesis by (simp add: ki kv)
qed

text \<open>
  Claim C9. The empty-string override resolves exactly as no override does, for every
  model name; for every catalog entry that is the entry's default provider and never the
  provider-unavailable error.
\<close>

theorem empty_override_is_default:
  "get_image_provider model (Some '''') = get_image_provider model None \<and>
   get_video_provider model (Some '''') = get_video_provider model None \<and>
   (\<forall>(m, cfg) \<in> set IMAGE_PROVIDERS.
      \<exists>p. map_of (providers cfg) (default_provider cfg) = Some p \<and>
          get_image_provider m (Some '''') = Inr (p, default_provider cfg)) \<and>
   (\<forall>(m, cfg) \<in> set VIDEO_PROVIDERS.
      \<exists>p. map_of (providers cfg) (default_provider cfg) = Some p \<and>
          get_video_provider m (Some '''') = Inr (p, default_provider cfg))"
proof (intro conjI ballI)
  show "get_image_provider model (Some '''') = get_image_provider model None"
    by (simp add: get_image_provider_def override_or_simps cong: option.case_cong)
  show "get_video_provider model (Some '''') = get_video_provider model None"
    by (simp add: get_video_provider_def override_or_simps cong: option.case_cong)
next
  fix x assume x: "x \<in> set IMAGE_PROVIDERS"
  obtain m cfg where mc: "x = (m, cfg)" by (cases x)
  from x mc image_default_member obtain p
    where p: "map_of (providers cfg) (default_provider cfg) = Some p" by fastforce
  from x mc have "get_image_provider m (Some '''') = Inr (p, default_provider cfg)"
    by (simp add: get_image_provider_known override_or_simps p)
  with p mc show "case x of (m, cfg) \<Rightarrow>
      \<exists>p. map_of (providers cfg) (default_provider cfg) = Some p \<and>
          get_image_provider m (Some '''') = Inr (p, default_provider cfg)" by simp
next
  fix x assume x: "x \<in> set VIDEO_PROVIDERS"
  obtain m cfg where mc: "x = (m, cfg)" by (cases x)
  from x mc video_default_member obtain p
    where p: "map_of (providers cfg) (default_provider cfg) = Some p" by fastforce
  from x mc have "get_video_provider m (Some '''') = Inr (p, default_provider cfg)"
    by (simp add: get_video_provider_known override_or_simps p)
  with p mc show "case x of (m, cfg) \<Rightarrow>
      \<exists>p. map_of (providers cfg) (default_provider cfg) = Some p \<and>
          get_video_provider m (Some '''') = Inr (p, default_provider cfg)" by simp
qed

text \<open>The theorem at \<open>gpt-image-1.5\<close> and at \<open>sora-2-pro\<close>.\<close>

theorem empty_override_is_default_witness:
  "(''gpt-image-1.5'', \<lparr>default_provider = ''wavespeed'', providers = [(''wavespeed'', WaveSpeed)]\<rparr>)
      \<in> set IMAGE_PROVIDERS \<and>
   get_image_provider ''gpt-image-1.5'' (Some '''') = Inr (WaveSpeed, ''wavespeed'') \<and>
   (''sora-2-pro'', \<lparr>default_provider = ''wavespeed'', providers = [(''kie'', Kie), (''wavespeed'', WaveSpeed)]\<rparr>)
      \<in> set VIDEO_PROVIDERS \<and>
   get_video_provider ''sora-2-pro'' (Some '''') = Inr (WaveSpeed, ''wavespeed'')"
proof -
  let ?ic = "\<lparr>default_provider = ''wavespeed'', providers = [(''wavespeed'', WaveSpeed)]\<rparr>"
  let ?vc = "\<lparr>default_provider = ''wavespeed'', providers = [(''kie'', Kie), (''wavespeed'', WaveSpeed)]\<rparr>"
  have i: "(''gpt-image-1.5'', ?ic) \<in> set IMAGE_PROVIDERS"
    by (simp add: IMAGE_PROVIDERS_def)
  have v: "(''sora-2-pro'', ?vc) \<in> set VIDEO_PROVIDERS"
    by (simp add: VIDEO_PROVIDERS_def)
  from empty_override_is_default [of "''x''"] i
  have "\<exists>p. map_of (providers ?ic) (default_provider ?ic) = Some p \<and>
          get_image_provider ''gpt-image-1.5'' (Some '''') = Inr (p, default_provider ?ic)"
    by blast
  then have gi: "get_image_provider ''gpt-image-1.5'' (Some '''') = Inr (WaveSpeed, ''wavespeed'')"
    by simp
  from empty_override_is_default [of "''x''"] v
  have "\<exists>p. map_of (providers ?vc) (default_provider ?vc) = Some p \<and>
          get_video_provider ''sora-2-pro'' (Some '''') = Inr (p, default_provider ?vc)"
    by blast
  then have gv: "get_video_provider ''sora-2-pro'' (Some '''') = Inr (WaveSpeed, ''wavespeed'')"
    by simp
  from i gi v gv show ?thesis by blast
qed


section \<open>The poll loop: one pass\<close>

lemma sleep_Again:
  "0 \<le> poll_interval \<Longrightarrow> sleep poll_interval s = (Again, s\<lparr>elapsed := elapsed s + poll_interval\<rparr>)"
  by (simp add: sleep_def)

lemma poll_iteration_not_200:
  "status_code r \<noteq> 200 \<Longrightarrow>
   poll_iteration task_id poll_interval (lat, GetReturns r) s =
     (if 10 < Suc (retry_count s)
      then (Raise (PollFailedAfterRetries (resp_text r)),
            s\<lparr>elapsed := elapsed s + lat, polls := Suc (polls s), retry_count := Suc (retry_count s)\<rparr>)
      else sleep poll_interval
            (s\<lparr>elapsed := elapsed s + lat, polls := Suc (polls s), retry_count := Suc (retry_count s)\<rparr>))"
  by (simp add: poll_iteration_def Let_def)

lemma poll_iteration_200_object:
  "status_code r = 200 \<Longrightarrow> json_body r = Some (JObj data) \<Longrightarrow>
   poll_iteration task_id poll_interval (lat, GetReturns r) s =
     (let s2 = s\<lparr>elapsed := elapsed s + lat, polls := Suc (polls s), retry_count := 0\<rparr> in
      if status_of data = JStr ''succeeded'' then
        (case result_url_of (dict_get data ''output'') of
           Some result_url \<Rightarrow> (Return (Success task_id result_url), s2)
         | None \<Rightarrow> (Raise (NoUsableOutput (JObj data)), s2))
      else if status_of data = JStr ''failed'' \<or> status_of data = JStr ''canceled'' then
        (Raise (PredictionFailed (status_of data)
           (if truthy (dict_get data ''error'') then dict_get data ''error'' else status_of data)), s2)
      else sleep poll_interval s2)"
  by (simp add: poll_iteration_def Let_def)

lemma poll_iteration_non_terminal:
  assumes "non_terminal out" and "0 \<le> poll_interval"
  shows "poll_iteration task_id poll_interval (lat, out) s =
     (Again, s\<lparr>elapsed := elapsed s + lat + poll_interval, polls := Suc (polls s), retry_count := 0\<rparr>)"
proof -
  from assms(1) obtain r data where out: "out = GetReturns r"
    and r: "status_code r = 200" "json_body r = Some (JObj data)"
    and st: "status_of data \<noteq> JStr ''succeeded''" "status_of data \<noteq> JStr ''failed''"
            "status_of data \<noteq> JStr ''canceled''"
    by (cases out) (auto split: option.splits json.splits)
  show ?thesis
    unfolding out using st assms(2)
    by (simp add: poll_iteration_200_object [OF r] sleep_Again Let_def)
qed

lemma poll_iteration_Again:
  assumes "poll_iteration task_id poll_interval reply s = (Again, s')"
  shows "elapsed s' = elapsed s + fst reply + poll_interval \<and> polls s' = Suc (polls s) \<and>
         0 \<le> poll_interval"
  using assms
  by (auto simp: poll_iteration_def sleep_def Let_def
      split: get_outcome.splits if_splits option.splits json.splits)

lemma poll_iteration_200_Again:
  assumes "poll_iteration task_id poll_interval (lat, GetReturns r) s = (Again, s')"
    and "status_code r = 200"
  shows "retry_count s' = 0"
  using assms
  by (auto simp: poll_iteration_def sleep_def Let_def
      split: if_splits option.splits json.splits)

section \<open>The poll loop: unfolding\<close>

lemma poll_loop_expired:
  "\<not> elapsed s < max_wait \<Longrightarrow>
   poll_loop replies task_id max_wait poll_interval s = Some (Inl (Timeout max_wait), s)"
  by (subst poll_loop.simps) simp

lemma poll_loop_Return:
  "elapsed s < max_wait \<Longrightarrow>
   poll_iteration task_id poll_interval (replies (polls s)) s = (Return r, s') \<Longrightarrow>
   poll_loop replies task_id max_wait poll_interval s = Some (Inr r, s')"
  by (subst poll_loop.simps) simp

lemma poll_loop_Raise:
  "elapsed s < max_wait \<Longrightarrow>
   poll_iteration task_id poll_interval (replies (polls s)) s = (Raise e, s') \<Longrightarrow>
   poll_loop replies task_id max_wait poll_interval s = Some (Inl e, s')"
  by (subst poll_loop.simps) simp

lemma poll_loop_Again:
  "elapsed s < max_wait \<Longrightarrow>
   poll_iteration task_id poll_interval (replies (polls s)) s = (Again, s') \<Longrightarrow>
   poll_loop replies task_id max_wait poll_interval s =
   poll_loop replies task_id max_wait poll_interval s'"
  by (subst poll_loop.simps) simp

section \<open>The poll loop ends\<close>

text \<open>
  Time passes: every pass that goes on takes at least \<open>\<delta>\<close> seconds, request and sleep
  together. This holds of a positive poll interval with requests that take no negative
  time, and of a zero interval with requests that take some time.
\<close>

lemma poll_loop_ends_within:
  assumes pos: "0 < \<delta>" and pass: "\<forall>k. \<delta> \<le> fst (replies k) + poll_interval"
  shows "max_wait - elapsed s \<le> real n * \<delta> \<Longrightarrow>
         \<exists>out. poll_loop replies task_id max_wait poll_interval s = Some out"
proof (induction n arbitrary: s)
  case 0
  then have "\<not> elapsed s < max_wait" by simp
  then show ?case by (simp add: poll_loop_expired)
next
  case (Suc n)
  show ?case
  proof (cases "elapsed s < max_wait")
    case False
    then show ?thesis by (simp add: poll_loop_expired)
  next
    case True
    obtain c s' where it: "poll_iteration task_id poll_interval (replies (polls s)) s = (c, s')"
      by (cases "poll_iteration task_id poll_interval (replies (polls s)) s")
    show ?thesis
    proof (cases c)
      case (Return r)
      with True it show ?thesis by (simp add: poll_loop_Return)
    next
      case (Raise e)
      with True it show ?thesis by (simp add: poll_loop_Raise)
    next
      case Again
      with it have "elapsed s' = elapsed s + fst (replies (polls s)) + poll_interval"
        using poll_iteration_Again by blast
      moreover from pass have "\<delta> \<le> fst (replies (polls s)) + poll_interval" by blast
      ultimately have "elapsed s + \<delta> \<le> elapsed s'" by simp
      with Suc.prems have "max_wait - elapsed s' \<le> real n * \<delta>"
        by (simp add: algebra_simps)
      then obtain out where "poll_loop replies task_id max_wait poll_interval s' = Some out"
        using Suc.IH by blast
      with True it Again show ?thesis by (simp add: poll_loop_Again)
    qed
  qed
qed

lemma poll_loop_ends:
  assumes "0 < \<delta>" and "\<forall>k. \<delta> \<le> fst (replies k) + poll_interval"
  shows "\<exists>out. poll_loop replies task_id max_wait poll_interval s = Some out"
proof -
  obtain n where "max_wait - elapsed s < real n * \<delta>"
    using assms(1) ex_less_of_nat_mult by blast
  then have "max_wait - elapsed s \<le> real n * \<delta>" by simp
  with assms show ?thesis by (rule poll_loop_ends_within)
qed

section \<open>A vendor that never finishes\<close>

lemma poll_loop_times_out_within:
  assumes pi: "0 \<le> poll_interval" and pos: "0 < \<delta>"
    and nt: "\<forall>k. \<delta> \<le> fst (replies k) + poll_interval \<and> non_terminal (snd (replies k))"
  shows "max_wait - elapsed s \<le> real n * \<delta> \<Longrightarrow>
         \<exists>s'. poll_loop replies task_id max_wait poll_interval s = Some (Inl (Timeout max_wait), s') \<and>
              max_wait \<le> elapsed s' \<and>
              (elapsed s' = elapsed s \<or>
               ((\<forall>k. fst (replies k) = 0) \<longrightarrow> elapsed s' < max_wait + poll_interval))"
proof (induction n arbitrary: s)
  case 0
  then have "\<not> elapsed s < max_wait" by simp
  then show ?case by (simp add: poll_loop_expired)
next
  case (Suc n)
  show ?case
  proof (cases "elapsed s < max_wait")
    case False
    then show ?thesis by (simp add: poll_loop_expired)
  next
    case True
    let ?lat = "fst (replies (polls s))"
    let ?s1 = "s\<lparr>elapsed := elapsed s + ?lat + poll_interval, polls := Suc (polls s),
                 retry_count := 0\<rparr>"
    from nt have step: "\<delta> \<le> ?lat + poll_interval"
      and n: "non_terminal (snd (replies (polls s)))"
      by blast+
    have r: "replies (polls s) = (?lat, snd (replies (polls s)))" by simp
    from n pi have "poll_iteration task_id poll_interval (?lat, snd (replies (polls s))) s
        = (Again, ?s1)"
      by (rule poll_iteration_non_terminal)
    with r have it: "poll_iteration task_id poll_interval (replies (polls s)) s = (Again, ?s1)"
      by simp
    from Suc.prems step have "max_wait - elapsed ?s1 \<le> real n * \<delta>"
      by (simp add: algebra_simps)
    then obtain s' where s':
      "poll_loop replies task_id max_wait poll_interval ?s1 = Some (Inl (Timeout max_wait), s')"
      "max_wait \<le> elapsed s'"
      "elapsed s' = elapsed ?s1 \<or>
       ((\<forall>k. fst (replies k) = 0) \<longrightarrow> elapsed s' < max_wait + poll_interval)"
      using Suc.IH by blast
    from True it s'(1)
    have "poll_loop replies task_id max_wait poll_interval s = Some (Inl (Timeout max_wait), s')"
      by (simp add: poll_loop_Again)
    moreover from s'(3) True
    have "(\<forall>k. fst (replies k) = 0) \<longrightarrow> elapsed s' < max_wait + poll_interval"
      by auto
    ultimately show ?thesis using s'(2) by blast
  qed
qed

text \<open>
  Claim C2. Let every reply to the poll URL be a 200 response with a non-terminal
  status, let the poll interval be non-negative, and let time pass: every pass of the loop
  takes at least some \<open>\<delta> > 0\<close>, request and sleep together. Then \<open>_poll_prediction\<close>
  never hangs: it ends by raising the timeout error, which carries \<open>max_wait\<close>. If moreover
  the requests take no time at all, so that only the loop's sleeps count (the interval is
  then positive), and \<open>max_wait\<close> is not negative, the time elapsed when the timeout is
  raised is below \<open>max_wait + poll_interval\<close>.
\<close>

theorem poll_loop_times_out:
  assumes "0 \<le> poll_interval" and "0 < \<delta>"
    and "\<forall>k. \<delta> \<le> fst (vendor poll_url k) + poll_interval \<and>
             non_terminal (snd (vendor poll_url k))"
  shows "\<exists>s'. poll_prediction vendor task_id poll_url max_wait poll_interval quiet
                = Some (Inl (Timeout max_wait), s') \<and>
              ((\<forall>k. fst (vendor poll_url k) = 0) \<and> 0 \<le> max_wait \<longrightarrow>
                 elapsed s' < max_wait + poll_interval)"
proof -
  obtain n where "max_wait - elapsed loop_entry < real n * \<delta>"
    using assms(2) ex_less_of_nat_mult by blast
  then have "max_wait - elapsed loop_entry \<le> real n * \<delta>" by simp
  with assms obtain s' where s':
    "poll_loop (vendor poll_url) task_id max_wait poll_interval loop_entry
       = Some (Inl (Timeout max_wait), s')"
    "elapsed s' = elapsed loop_entry \<or>
     ((\<forall>k. fst (vendor poll_url k) = 0) \<longrightarrow> elapsed s' < max_wait + poll_interval)"
    using poll_loop_times_out_within
      [of poll_interval \<delta> "vendor poll_url" max_wait loop_entry n task_id]
    by blast
  have "elapsed s' < max_wait + poll_interval"
    if zero: "\<forall>k. fst (vendor poll_url k) = 0" and mw: "0 \<le> max_wait"
  proof -
    from assms(3) zero have "\<delta> \<le> poll_interval" by (metis add_0)
    with assms(2) have "0 < poll_interval" by simp
    with s'(2) zero mw show ?thesis by (auto simp: loop_entry_def)
  qed
  with s'(1) show ?thesis by (auto simp: poll_prediction_def)
qed


section \<open>Only consecutive failures exhaust the retries\<close>

lemma failure_run_entry: "failure_run replies loop_entry"
  by (simp add: failure_run_def loop_entry_def)

lemma failure_run_reset:
  "failure_run replies (s\<lparr>elapsed := e, polls := p, retry_count := 0\<rparr>)"
  by (simp add: failure_run_def)

lemma failure_run_extend:
  assumes "failure_run replies s" and "transport_failure (snd (replies (polls s)))"
  shows "failure_run replies (s\<lparr>elapsed := e, polls := Suc (polls s), retry_count := Suc (retry_count s)\<rparr>)"
proof -
  have "transport_failure (snd (replies (polls s - k)))" if "k < Suc (retry_count s)" for k
  proof (cases k)
    case 0
    with assms(2) show ?thesis by simp
  next
    case (Suc j)
    with that have "j < retry_count s" by simp
    with assms(1) have "transport_failure (snd (replies (polls s - Suc j)))"
      by (simp add: failure_run_def)
    with Suc show ?thesis by simp
  qed
  with assms(1) show ?thesis by (simp add: failure_run_def)
qed

lemma poll_iteration_failure_run:
  assumes run: "failure_run replies s" and le: "retry_count s \<le> 10"
    and it: "poll_iteration task_id poll_interval (replies (polls s)) s = (c, s')"
  shows "(c = Again \<longrightarrow> failure_run replies s' \<and> retry_count s' \<le> 10) \<and>
         (\<forall>t. c = Raise (PollFailedAfterRetries t) \<longrightarrow> failure_run replies s' \<and> retry_count s' = 11)"
proof (cases "snd (replies (polls s))")
  case (GetRaises e)
  with it show ?thesis by (auto simp: poll_iteration_def Let_def)
next
  case (GetReturns r)
  then have rep: "replies (polls s) = (fst (replies (polls s)), GetReturns r)"
    by (simp add: prod_eq_iff)
  show ?thesis
  proof (cases "status_code r = 200")
    case False
    let ?s2 = "s\<lparr>elapsed := elapsed s + fst (replies (polls s)), polls := Suc (polls s),
                 retry_count := Suc (retry_count s)\<rparr>"
    from GetReturns False have "transport_failure (snd (replies (polls s)))" by simp
    with run have fr: "failure_run replies ?s2" by (rule failure_run_extend)
    have fr': "failure_run replies (?s2\<lparr>elapsed := e\<rparr>)" for e
      using fr by (simp add: failure_run_def)
    from it rep False
    have "(c, s') = (if 10 < Suc (retry_count s)
             then (Raise (PollFailedAfterRetries (resp_text r)), ?s2)
             else sleep poll_interval ?s2)"
      using poll_iteration_not_200 [of r task_id poll_interval "fst (replies (polls s))" s]
      by simp
    with le fr fr' show ?thesis
      by (auto simp: sleep_def split: if_splits)
  next
    case True
    have "c = Again \<longrightarrow> retry_count s' = 0"
      using it rep True poll_iteration_200_Again [of task_id poll_interval _ r s s'] by metis
    moreover have "c = Again \<longrightarrow> polls s' = Suc (polls s)"
      using it poll_iteration_Again by blast
    moreover have "c \<noteq> Raise (PollFailedAfterRetries t)" for t
      using it GetReturns True
      by (auto simp: poll_iteration_def sleep_def Let_def
          split: if_splits option.splits json.splits)
    ultimately show ?thesis by (auto simp: failure_run_def)
  qed
qed

lemma poll_loop_failure_run:
  assumes "poll_loop replies task_id max_wait poll_interval s = Some y"
  shows "failure_run replies s \<and> retry_count s \<le> 10 \<longrightarrow>
         (\<forall>t s'. y = (Inl (PollFailedAfterRetries t), s') \<longrightarrow>
            failure_run replies s' \<and> retry_count s' = 11)"
proof (rule poll_loop.raw_induct
    [where P = "\<lambda>replies task_id max_wait poll_interval s y.
         failure_run replies s \<and> retry_count s \<le> 10 \<longrightarrow>
         (\<forall>t s'. y = (Inl (PollFailedAfterRetries t), s') \<longrightarrow>
            failure_run replies s' \<and> retry_count s' = 11)", OF _ assms], goal_cases)
  case (1 f replies task_id max_wait poll_interval s y)
  note IH = "1"(1) and unfolded = "1"(2)
  show ?case
  proof (intro impI allI)
    fix t s'
    assume inv: "failure_run replies s \<and> retry_count s \<le> 10"
      and y: "y = (Inl (PollFailedAfterRetries t), s')"
    obtain c s1 where it: "poll_iteration task_id poll_interval (replies (polls s)) s = (c, s1)"
      by (cases "poll_iteration task_id poll_interval (replies (polls s)) s")
    from inv it have step:
      "c = Again \<longrightarrow> failure_run replies s1 \<and> retry_count s1 \<le> 10"
      "\<forall>t. c = Raise (PollFailedAfterRetries t) \<longrightarrow> failure_run replies s1 \<and> retry_count s1 = 11"
      using poll_iteration_failure_run [of replies s task_id poll_interval c s1] by blast+
    show "failure_run replies s' \<and> retry_count s' = 11"
    proof (cases "elapsed s < max_wait")
      case False
      with unfolded y show ?thesis by simp
    next
      case True
      show ?thesis
      proof (cases c)
        case (Return r)
        with unfolded True it y show ?thesis by simp
      next
        case (Raise e)
        with unfolded True it y have "e = PollFailedAfterRetries t" "s1 = s'" by simp_all
        with Raise step(2) show ?thesis by blast
      next
        case Again
        with unfolded True it y
        have "f replies task_id max_wait poll_interval s1 = Some (Inl (PollFailedAfterRetries t), s')"
          by simp
        from IH [OF this] Again step(1) show ?thesis by blast
      qed
    qed
  qed
qed

lemma poll_prediction_failure_run:
  assumes "poll_prediction vendor task_id poll_url max_wait poll_interval quiet
             = Some (Inl (PollFailedAfterRetries t), s')"
  shows "11 \<le> polls s' \<and> (\<forall>k<11. transport_failure (snd (vendor poll_url (polls s' - Suc k))))"
proof -
  from assms have "failure_run (vendor poll_url) s' \<and> retry_count s' = 11"
    using poll_loop_failure_run [of "vendor poll_url" task_id max_wait poll_interval loop_entry]
      failure_run_entry [of "vendor poll_url"]
    by (simp add: poll_prediction_def loop_entry_def)
  then show ?thesis by (simp add: failure_run_def)
qed


section \<open>Sample runs of the loop\<close>

text \<open>
  Ten failures, a \<open>processing\<close> reply and ten more failures do not exhaust the retries:
  the run ends in success on the 22nd request.
\<close>

lemma flaky_run:
  "poll_prediction flaky_vendor ''t1'' ''https://poll/t1'' 600 5 True =
     Some (Inr (Success ''t1'' (JStr ''u1'')), \<lparr>elapsed = 105, retry_count = 0, polls = 22\<rparr>)"
  by (simp add: poll_prediction_def poll_loop.simps poll_iteration_def flaky_vendor_def
      unavailable_response_def processing_response_def succeeded_response_def
      loop_entry_def sleep_def status_of_def dict_get_def Let_def)

lemma unavailable_run:
  "poll_prediction always_unavailable ''t1'' ''https://poll/t1'' 600 5 True =
     Some (Inl (PollFailedAfterRetries ''Service Unavailable''),
           \<lparr>elapsed = 50, retry_count = 11, polls = 11\<rparr>)"
  by (simp add: poll_prediction_def poll_loop.simps poll_iteration_def always_unavailable_def
      unavailable_response_def loop_entry_def sleep_def Let_def)

text \<open>The theorem at a wait of 12 seconds polled every 5: the timeout comes at 15.\<close>

theorem poll_loop_times_out_witness:
  "(0::real) \<le> 5 \<and> (0::real) < 5 \<and>
   (\<forall>k. 5 \<le> fst (always_processing ''https://poll/t1'' k) + 5 \<and>
        non_terminal (snd (always_processing ''https://poll/t1'' k))) \<and>
   (\<forall>k. fst (always_processing ''https://poll/t1'' k) = 0) \<and> (0::real) \<le> 12 \<and>
   (\<exists>s'. poll_prediction always_processing ''t1'' ''https://poll/t1'' 12 5 False
            = Some (Inl (Timeout 12), s') \<and> elapsed s' < 12 + 5)"
proof -
  have h: "\<forall>k. 5 \<le> fst (always_processing ''https://poll/t1'' k) + 5 \<and>
        non_terminal (snd (always_processing ''https://poll/t1'' k))"
    by (simp add: always_processing_def processing_response_def status_of_def)
  have z: "\<forall>k. fst (always_processing ''https://poll/t1'' k) = 0"
    by (simp add: always_processing_def)
  have p: "(0::real) \<le> 5" and d: "(0::real) < 5" and m: "(0::real) \<le> 12" by simp_all
  from poll_loop_times_out [where poll_interval = 5 and \<delta> = 5 and max_wait = 12
      and vendor = always_processing and poll_url = "''https://poll/t1''"
      and task_id = "''t1''" and quiet = False, OF p d h] z m
  have "\<exists>s'. poll_prediction always_processing ''t1'' ''https://poll/t1'' 12 5 False
            = Some (Inl (Timeout 12), s') \<and> elapsed s' < 12 + 5"
    by simp
  with p d h z m show ?thesis by (intro conjI)
qed

section \<open>The retry counter\<close>

text \<open>
  Claim C3. Take a pass of the loop that is entered (the deadline has not passed) and
  whose request gets a response, with a non-negative poll interval. A response with a
  status other than 200 (every non-2xx response is one) increments the counter; if the
  counter then exceeds 10 the loop raises "Poll failed after retries" with the response
  text, otherwise it sleeps for the interval and goes on with the incremented counter. A
  200 response with a non-terminal status sleeps and goes on with the counter at zero,
  and no 200 response lets the loop go on with a counter other than zero. Hence, in a
  whole run of \<open>_poll_prediction\<close>, the retry error is raised only when the last eleven
  replies were failures in a row.
\<close>

theorem transient_retry_bound:
  assumes "0 \<le> poll_interval" and "elapsed s < max_wait"
    and "replies (polls s) = (lat, GetReturns r)"
  shows
    "(status_code r \<noteq> 200 \<and> 10 \<le> retry_count s \<longrightarrow>
        poll_loop replies task_id max_wait poll_interval s =
          Some (Inl (PollFailedAfterRetries (resp_text r)),
                s\<lparr>elapsed := elapsed s + lat, polls := Suc (polls s),
                  retry_count := Suc (retry_count s)\<rparr>)) \<and>
     (status_code r \<noteq> 200 \<and> retry_count s < 10 \<longrightarrow>
        poll_loop replies task_id max_wait poll_interval s =
          poll_loop replies task_id max_wait poll_interval
            (s\<lparr>elapsed := elapsed s + lat + poll_interval, polls := Suc (polls s),
              retry_count := Suc (retry_count s)\<rparr>)) \<and>
     (non_terminal (GetReturns r) \<longrightarrow>
        poll_loop replies task_id max_wait poll_interval s =
          poll_loop replies task_id max_wait poll_interval
            (s\<lparr>elapsed := elapsed s + lat + poll_interval, polls := Suc (polls s),
              retry_count := 0\<rparr>)) \<and>
     (status_code r = 200 \<longrightarrow>
        (\<forall>s'. poll_iteration task_id poll_interval (lat, GetReturns r) s = (Again, s')
              \<longrightarrow> retry_count s' = 0)) \<and>
     (\<forall>t s'. poll_prediction vendor task_id poll_url max_wait poll_interval quiet
               = Some (Inl (PollFailedAfterRetries t), s') \<longrightarrow>
             11 \<le> polls s' \<and>
             (\<forall>k<11. transport_failure (snd (vendor poll_url (polls s' - Suc k)))))"
proof -
  have c1: "status_code r \<noteq> 200 \<and> 10 \<le> retry_count s \<longrightarrow>
        poll_loop replies task_id max_wait poll_interval s =
          Some (Inl (PollFailedAfterRetries (resp_text r)),
                s\<lparr>elapsed := elapsed s + lat, polls := Suc (polls s),
                  retry_count := Suc (retry_count s)\<rparr>)"
  proof
    assume a: "status_code r \<noteq> 200 \<and> 10 \<le> retry_count s"
    then have "poll_iteration task_id poll_interval (replies (polls s)) s =
        (Raise (PollFailedAfterRetries (resp_text r)),
         s\<lparr>elapsed := elapsed s + lat, polls := Suc (polls s), retry_count := Suc (retry_count s)\<rparr>)"
      by (simp add: assms(3) poll_iteration_not_200)
    with assms(2) show "poll_loop replies task_id max_wait poll_interval s =
          Some (Inl (PollFailedAfterRetries (resp_text r)),
                s\<lparr>elapsed := elapsed s + lat, polls := Suc (polls s),
                  retry_count := Suc (retry_count s)\<rparr>)"
      by (rule poll_loop_Raise)
  qed
  have c2: "status_code r \<noteq> 200 \<and> retry_count s < 10 \<longrightarrow>
        poll_loop replies task_id max_wait poll_interval s =
          poll_loop replies task_id max_wait poll_interval
            (s\<lparr>elapsed := elapsed s + lat + poll_interval, polls := Suc (polls s),
              retry_count := Suc (retry_count s)\<rparr>)"
  proof
    assume a: "status_code r \<noteq> 200 \<and> retry_count s < 10"
    with assms(1) have "poll_iteration task_id poll_interval (replies (polls s)) s =
        (Again, s\<lparr>elapsed := elapsed s + lat + poll_interval, polls := Suc (polls s),
                  retry_count := Suc (retry_count s)\<rparr>)"
      by (simp add: assms(3) poll_iteration_not_200 sleep_Again)
    with assms(2) show "poll_loop replies task_id max_wait poll_interval s =
          poll_loop replies task_id max_wait poll_interval
            (s\<lparr>elapsed := elapsed s + lat + poll_interval, polls := Suc (polls s),
              retry_count := Suc (retry_count s)\<rparr>)"
      by (rule poll_loop_Again)
  qed
  have c3: "non_terminal (GetReturns r) \<longrightarrow>
        poll_loop replies task_id max_wait poll_interval s =
          poll_loop replies task_id max_wait poll_interval
            (s\<lparr>elapsed := elapsed s + lat + poll_interval, polls := Suc (polls s),
              retry_count := 0\<rparr>)"
  proof
    assume "non_terminal (GetReturns r)"
    then have "poll_iteration task_id poll_interval (replies (polls s)) s =
        (Again, s\<lparr>elapsed := elapsed s + lat + poll_interval, polls := Suc (polls s),
                  retry_count := 0\<rparr>)"
      unfolding assms(3) using assms(1) by (rule poll_iteration_non_terminal)
    with assms(2) show "poll_loop replies task_id max_wait poll_interval s =
          poll_loop replies task_id max_wait poll_interval
            (s\<lparr>elapsed := elapsed s + lat + poll_interval, polls := Suc (polls s),
              retry_count := 0\<rparr>)"
      by (rule poll_loop_Again)
  qed
  have c4: "status_code r = 200 \<longrightarrow>
        (\<forall>s'. poll_iteration task_id poll_interval (lat, GetReturns r) s = (Again, s')
              \<longrightarrow> retry_count s' = 0)"
    using poll_iteration_200_Again by blast
  have c5: "\<forall>t s'. poll_prediction vendor task_id poll_url max_wait poll_interval quiet
               = Some (Inl (PollFailedAfterRetries t), s') \<longrightarrow>
             11 \<le> polls s' \<and>
             (\<forall>k<11. transport_failure (snd (vendor poll_url (polls s' - Suc k))))"
    using poll_prediction_failure_run by blast
  from c1 c2 c3 c4 c5 show ?thesis by (intro conjI)
qed


text \<open>
  The theorem at the eleventh failure in a row, at a \<open>processing\<close> reply after ten
  failures, and at a first failure.
\<close>

theorem transient_retry_bound_witness:
  "(0::real) \<le> 5 \<and>
   elapsed \<lparr>elapsed = 50, retry_count = 10, polls = 10\<rparr> < 600 \<and>
   always_unavailable ''p'' (polls \<lparr>elapsed = 50, retry_count = 10, polls = 10\<rparr>)
     = (0, GetReturns unavailable_response) \<and>
   status_code unavailable_response \<noteq> 200 \<and>
   10 \<le> retry_count \<lparr>elapsed = 50, retry_count = 10, polls = 10\<rparr> \<and>
   poll_loop (always_unavailable ''p'') ''t1'' 600 5 \<lparr>elapsed = 50, retry_count = 10, polls = 10\<rparr>
     = Some (Inl (PollFailedAfterRetries ''Service Unavailable''),
             \<lparr>elapsed = 50, retry_count = 11, polls = 11\<rparr>) \<and>
   poll_prediction always_unavailable ''t1'' ''p'' 600 5 True
     = Some (Inl (PollFailedAfterRetries ''Service Unavailable''),
             \<lparr>elapsed = 50, retry_count = 11, polls = 11\<rparr>) \<and>
   transport_failure (snd (always_unavailable ''p'' (11 - Suc 10))) \<and>
   flaky_vendor ''p'' (polls \<lparr>elapsed = 50, retry_count = 10, polls = 10\<rparr>)
     = (0, GetReturns processing_response) \<and>
   non_terminal (GetReturns processing_response) \<and>
   poll_loop (flaky_vendor ''p'') ''t1'' 600 5 \<lparr>elapsed = 50, retry_count = 10, polls = 10\<rparr>
     = poll_loop (flaky_vendor ''p'') ''t1'' 600 5 \<lparr>elapsed = 55, retry_count = 0, polls = 11\<rparr> \<and>
   flaky_vendor ''p'' (polls loop_entry) = (0, GetReturns unavailable_response) \<and>
   retry_count loop_entry < 10 \<and>
   poll_loop (flaky_vendor ''p'') ''t1'' 600 5 loop_entry
     = poll_loop (flaky_vendor ''p'') ''t1'' 600 5 \<lparr>elapsed = 5, retry_count = 1, polls = 1\<rparr>"
proof -
  let ?s = "\<lparr>elapsed = 50, retry_count = 10, polls = 10\<rparr>"
  have pi: "(0::real) \<le> 5" by simp
  have el: "elapsed ?s < 600" "elapsed loop_entry < 600" by (simp_all add: loop_entry_def)
  have un: "always_unavailable ''p'' (polls ?s) = (0, GetReturns unavailable_response)"
    by (simp add: always_unavailable_def)
  have st: "status_code unavailable_response \<noteq> 200" "10 \<le> retry_count ?s"
    by (simp_all add: unavailable_response_def)
  have run: "poll_prediction always_unavailable ''t1'' ''p'' 600 5 True
     = Some (Inl (PollFailedAfterRetries ''Service Unavailable''),
             \<lparr>elapsed = 50, retry_count = 11, polls = 11\<rparr>)"
    by (simp add: poll_prediction_def poll_loop.simps poll_iteration_def always_unavailable_def
        unavailable_response_def loop_entry_def sleep_def Let_def)
  have fl: "flaky_vendor ''p'' (polls ?s) = (0, GetReturns processing_response)"
    by (simp add: flaky_vendor_def)
  have nt: "non_terminal (GetReturns processing_response)"
    by (simp add: processing_response_def status_of_def)
  have fl0: "flaky_vendor ''p'' (polls loop_entry) = (0, GetReturns unavailable_response)"
    by (simp add: flaky_vendor_def loop_entry_def)
  have rc0: "retry_count loop_entry < 10" by (simp add: loop_entry_def)
  note a = transient_retry_bound [where poll_interval = 5 and s = ?s and max_wait = 600
      and replies = "always_unavailable ''p''" and lat = 0 and r = unavailable_response
      and task_id = "''t1''" and vendor = always_unavailable and poll_url = "''p''"
      and quiet = True, OF pi el(1) un]
  note b = transient_retry_bound [where poll_interval = 5 and s = ?s and max_wait = 600
      and replies = "flaky_vendor ''p''" and lat = 0 and r = processing_response
      and task_id = "''t1''" and vendor = always_unavailable and poll_url = "''p''"
      and quiet = True, OF pi el(1) fl]
  note c = transient_retry_bound [where poll_interval = 5 and s = loop_entry and max_wait = 600
      and replies = "flaky_vendor ''p''" and lat = 0 and r = unavailable_response
      and task_id = "''t1''" and vendor = always_unavailable and poll_url = "''p''"
      and quiet = True, OF pi el(2) fl0]
  from a st have a1: "poll_loop (always_unavailable ''p'') ''t1'' 600 5 ?s
     = Some (Inl (PollFailedAfterRetries ''Service Unavailable''),
             \<lparr>elapsed = 50, retry_count = 11, polls = 11\<rparr>)"
    by (simp add: unavailable_response_def)
  from a run have "\<forall>k<11. transport_failure (snd (always_unavailable ''p'' (11 - Suc k)))"
    by simp
  then have a5: "transport_failure (snd (always_unavailable ''p'' (11 - Suc 10)))"
    by (rule allE [of _ 10]) simp
  from b nt have b3: "poll_loop (flaky_vendor ''p'') ''t1'' 600 5 ?s
     = poll_loop (flaky_vendor ''p'') ''t1'' 600 5 \<lparr>elapsed = 55, retry_count = 0, polls = 11\<rparr>"
    by simp
  from c st(1) rc0 have c2: "poll_loop (flaky_vendor ''p'') ''t1'' 600 5 loop_entry
     = poll_loop (flaky_vendor ''p'') ''t1'' 600 5 \<lparr>elapsed = 5, retry_count = 1, polls = 1\<rparr>"
    by (simp add: loop_entry_def)
  from pi el(1) un st a1 run a5 fl nt b3 fl0 rc0 c2 show ?thesis by (intro conjI)
qed

section \<open>The output of a succeeded prediction\<close>

text \<open>
  Claim C4. On a 200 response whose body is an object with status \<open>succeeded\<close>, the loop
  returns success with the first element of \<open>output\<close> when that is a non-empty list,
  returns success with \<open>output\<close> itself when that is a non-empty string, and raises the
  no-usable-output error for every other \<open>output\<close> (empty list, empty string, absent,
  or of another type); it never returns success then.
\<close>

theorem succeeded_output_shape:
  assumes "elapsed s < max_wait" and "replies (polls s) = (lat, GetReturns r)"
    and "status_code r = 200" and "json_body r = Some (JObj data)"
    and "status_of data = JStr ''succeeded''"
  shows
    "(\<forall>x xs. dict_get data ''output'' = JList (x # xs) \<longrightarrow>
        poll_loop replies task_id max_wait poll_interval s =
          Some (Inr (Success task_id x),
                s\<lparr>elapsed := elapsed s + lat, polls := Suc (polls s), retry_count := 0\<rparr>)) \<and>
     (\<forall>u. u \<noteq> [] \<and> dict_get data ''output'' = JStr u \<longrightarrow>
        poll_loop replies task_id max_wait poll_interval s =
          Some (Inr (Success task_id (JStr u)),
                s\<lparr>elapsed := elapsed s + lat, polls := Suc (polls s), retry_count := 0\<rparr>)) \<and>
     ((\<forall>x xs. dict_get data ''output'' \<noteq> JList (x # xs)) \<and>
      (\<forall>u. u \<noteq> [] \<longrightarrow> dict_get data ''output'' \<noteq> JStr u) \<longrightarrow>
        poll_loop replies task_id max_wait poll_interval s =
          Some (Inl (NoUsableOutput (JObj data)),
                s\<lparr>elapsed := elapsed s + lat, polls := Suc (polls s), retry_count := 0\<rparr>))"
proof -
  let ?s2 = "s\<lparr>elapsed := elapsed s + lat, polls := Suc (polls s), retry_count := 0\<rparr>"
  have it: "poll_iteration task_id poll_interval (replies (polls s)) s =
      (case result_url_of (dict_get data ''output'') of
         Some result_url \<Rightarrow> (Return (Success task_id result_url), ?s2)
       | None \<Rightarrow> (Raise (NoUsableOutput (JObj data)), ?s2))"
    unfolding assms(2) using assms(5)
    by (simp add: poll_iteration_200_object [OF assms(3,4)] Let_def)
  have c1: "\<forall>x xs. dict_get data ''output'' = JList (x # xs) \<longrightarrow>
        poll_loop replies task_id max_wait poll_interval s = Some (Inr (Success task_id x), ?s2)"
    using it assms(1) by (simp add: poll_loop_Return)
  have c2: "\<forall>u. u \<noteq> [] \<and> dict_get data ''output'' = JStr u \<longrightarrow>
        poll_loop replies task_id max_wait poll_interval s = Some (Inr (Success task_id (JStr u)), ?s2)"
  proof (intro allI impI)
    fix u assume u: "u \<noteq> [] \<and> dict_get data ''output'' = JStr u"
    then obtain c cs where "u = c # cs" by (cases u) auto
    with u it have "poll_iteration task_id poll_interval (replies (polls s)) s
        = (Return (Success task_id (JStr u)), ?s2)" by simp
    with assms(1) show "poll_loop replies task_id max_wait poll_interval s
        = Some (Inr (Success task_id (JStr u)), ?s2)" by (rule poll_loop_Return)
  qed
  have c3: "(\<forall>x xs. dict_get data ''output'' \<noteq> JList (x # xs)) \<and>
      (\<forall>u. u \<noteq> [] \<longrightarrow> dict_get data ''output'' \<noteq> JStr u) \<longrightarrow>
        poll_loop replies task_id max_wait poll_interval s = Some (Inl (NoUsableOutput (JObj data)), ?s2)"
  proof
    assume a: "(\<forall>x xs. dict_get data ''output'' \<noteq> JList (x # xs)) \<and>
      (\<forall>u. u \<noteq> [] \<longrightarrow> dict_get data ''output'' \<noteq> JStr u)"
    have "result_url_of (dict_get data ''output'') = None"
    proof (cases "dict_get data ''output''" rule: result_url_of.cases)
      case (1 x xs) with a show ?thesis by auto
    next
      case (2 c cs) with a show ?thesis by (auto dest: spec [of _ "c # cs"])
    qed simp_all
    with it have "poll_iteration task_id poll_interval (replies (polls s)) s
        = (Raise (NoUsableOutput (JObj data)), ?s2)" by simp
    with assms(1) show "poll_loop replies task_id max_wait poll_interval s
        = Some (Inl (NoUsableOutput (JObj data)), ?s2)" by (rule poll_loop_Raise)
  qed
  from c1 c2 c3 show ?thesis by (intro conjI)
qed


text \<open>The theorem at a list of two URLs, a URL string, the empty list and the empty string.\<close>

theorem succeeded_output_shape_witness:
  "elapsed loop_entry < 120 \<and>
   status_code (succeeded_response (JList [JStr ''u1'', JStr ''u2''])) = 200 \<and>
   status_of [(''status'', JStr ''succeeded''), (''output'', JList [JStr ''u1'', JStr ''u2''])]
     = JStr ''succeeded'' \<and>
   poll_loop (\<lambda>k. (0, GetReturns (succeeded_response (JList [JStr ''u1'', JStr ''u2''])))) ''t1'' 120 3
       loop_entry
     = Some (Inr (Success ''t1'' (JStr ''u1'')), \<lparr>elapsed = 0, retry_count = 0, polls = 1\<rparr>) \<and>
   poll_loop (\<lambda>k. (0, GetReturns (succeeded_response (JStr ''v.mp4'')))) ''t1'' 120 3 loop_entry
     = Some (Inr (Success ''t1'' (JStr ''v.mp4'')), \<lparr>elapsed = 0, retry_count = 0, polls = 1\<rparr>) \<and>
   poll_loop (\<lambda>k. (0, GetReturns (succeeded_response (JList [])))) ''t1'' 120 3 loop_entry
     = Some (Inl (NoUsableOutput (JObj [(''status'', JStr ''succeeded''), (''output'', JList [])])),
             \<lparr>elapsed = 0, retry_count = 0, polls = 1\<rparr>) \<and>
   poll_loop (\<lambda>k. (0, GetReturns (succeeded_response (JStr '''')))) ''t1'' 120 3 loop_entry
     = Some (Inl (NoUsableOutput (JObj [(''status'', JStr ''succeeded''), (''output'', JStr '''')])),
             \<lparr>elapsed = 0, retry_count = 0, polls = 1\<rparr>)"
proof -
  have el: "elapsed loop_entry < 120" by (simp add: loop_entry_def)
  have sc: "status_code (succeeded_response out) = 200" for out
    by (simp add: succeeded_response_def)
  have jb: "json_body (succeeded_response out)
      = Some (JObj [(''status'', JStr ''succeeded''), (''output'', out)])" for out
    by (simp add: succeeded_response_def)
  have st: "status_of [(''status'', JStr ''succeeded''), (''output'', out)] = JStr ''succeeded''" for out
    by (simp add: status_of_def)
  have og: "dict_get [(''status'', JStr ''succeeded''), (''output'', out)] ''output'' = out" for out
    by (simp add: dict_get_def)
  have rp: "(\<lambda>k. (0, GetReturns (succeeded_response out))) (polls loop_entry)
      = (0, GetReturns (succeeded_response out))" for out :: json
    by simp
  have a: "poll_loop (\<lambda>k. (0, GetReturns (succeeded_response (JList [JStr ''u1'', JStr ''u2''])))) ''t1'' 120 3
       loop_entry
     = Some (Inr (Success ''t1'' (JStr ''u1'')), \<lparr>elapsed = 0, retry_count = 0, polls = 1\<rparr>)"
    using succeeded_output_shape [where s = loop_entry and max_wait = 120 and lat = 0
        and task_id = "''t1''" and poll_interval = 3
        and replies = "\<lambda>k. (0, GetReturns (succeeded_response (JList [JStr ''u1'', JStr ''u2''])))"
        and r = "succeeded_response (JList [JStr ''u1'', JStr ''u2''])"
        and data = "[(''status'', JStr ''succeeded''), (''output'', JList [JStr ''u1'', JStr ''u2''])]",
        OF el rp sc jb st] by (simp add: og loop_entry_def)
  have b: "poll_loop (\<lambda>k. (0, GetReturns (succeeded_response (JStr ''v.mp4'')))) ''t1'' 120 3 loop_entry
     = Some (Inr (Success ''t1'' (JStr ''v.mp4'')), \<lparr>elapsed = 0, retry_count = 0, polls = 1\<rparr>)"
    using succeeded_output_shape [where s = loop_entry and max_wait = 120 and lat = 0
        and task_id = "''t1''" and poll_interval = 3
        and replies = "\<lambda>k. (0, GetReturns (succeeded_response (JStr ''v.mp4'')))"
        and r = "succeeded_response (JStr ''v.mp4'')"
        and data = "[(''status'', JStr ''succeeded''), (''output'', JStr ''v.mp4'')]",
        OF el rp sc jb st] by (simp add: og loop_entry_def)
  have c: "poll_loop (\<lambda>k. (0, GetReturns (succeeded_response (JList [])))) ''t1'' 120 3 loop_entry
     = Some (Inl (NoUsableOutput (JObj [(''status'', JStr ''succeeded''), (''output'', JList [])])),
             \<lparr>elapsed = 0, retry_count = 0, polls = 1\<rparr>)"
    using succeeded_output_shape [where s = loop_entry and max_wait = 120 and lat = 0
        and task_id = "''t1''" and poll_interval = 3
        and replies = "\<lambda>k. (0, GetReturns (succeeded_response (JList [])))"
        and r = "succeeded_response (JList [])"
        and data = "[(''status'', JStr ''succeeded''), (''output'', JList [])]",
        OF el rp sc jb st] by (simp add: og loop_entry_def)
  have d: "poll_loop (\<lambda>k. (0, GetReturns (succeeded_response (JStr '''')))) ''t1'' 120 3 loop_entry
     = Some (Inl (NoUsableOutput (JObj [(''status'', JStr ''succeeded''), (''output'', JStr '''')])),
             \<lparr>elapsed = 0, retry_count = 0, polls = 1\<rparr>)"
    using succeeded_output_shape [where s = loop_entry and max_wait = 120 and lat = 0
        and task_id = "''t1''" and poll_interval = 3
        and replies = "\<lambda>k. (0, GetReturns (succeeded_response (JStr '''')))"
        and r = "succeeded_response (JStr '''')"
        and data = "[(''status'', JStr ''succeeded''), (''output'', JStr '''')]",
        OF el rp sc jb st] by (simp add: og loop_entry_def)
  from el sc st a b c d show ?thesis by (intro conjI)
qed


section \<open>Parallel polling isolates failures\<close>

lemma max_workers_bounds:
  "max_workers n \<le> 20" "max_workers n \<le> n" "0 < n \<Longrightarrow> 0 < max_workers n"
  by (simp_all add: max_workers_def)

lemma as_completed_loop_collects:
  assumes "\<forall>(i, tid) \<in> set order. \<exists>out. outcome i tid = Some out"
  shows "\<exists>res. as_completed_loop outcome order results = Some res \<and>
           dom res = dom results \<union> snd ` set order \<and>
           (\<forall>tid. tid \<notin> snd ` set order \<longrightarrow> res tid = results tid) \<and>
           (\<forall>tid \<in> snd ` set order.
              \<exists>i out. (i, tid) \<in> set order \<and> outcome i tid = Some out \<and>
                      res tid = Some (to_result tid out))"
  using assms
proof (induction order arbitrary: results)
  case Nil
  then show ?case by simp
next
  case (Cons future rest)
  obtain i tid where future: "future = (i, tid)" by (cases future)
  from Cons.prems future obtain out where out: "outcome i tid = Some out" by auto
  let ?results = "results(tid \<mapsto> to_result tid out)"
  from Cons.prems have "\<forall>(i, tid) \<in> set rest. \<exists>out. outcome i tid = Some out" by simp
  from Cons.IH [OF this, of ?results] obtain res where res:
    "as_completed_loop outcome rest ?results = Some res"
    "dom res = dom ?results \<union> snd ` set rest"
    "\<forall>t. t \<notin> snd ` set rest \<longrightarrow> res t = ?results t"
    "\<forall>t \<in> snd ` set rest.
        \<exists>j o'. (j, t) \<in> set rest \<and> outcome j t = Some o' \<and> res t = Some (to_result t o')"
    by blast
  have 1: "as_completed_loop outcome (future # rest) results = Some res"
    using future out res(1) by simp
  have 2: "dom res = dom results \<union> snd ` set (future # rest)"
    using res(2) future by auto
  have 3: "\<forall>t. t \<notin> snd ` set (future # rest) \<longrightarrow> res t = results t"
    using res(3) future by auto
  have 4: "\<exists>j o'. (j, t) \<in> set (future # rest) \<and> outcome j t = Some o' \<and>
                  res t = Some (to_result t o')"
    if t: "t \<in> snd ` set (future # rest)" for t
  proof (cases "t \<in> snd ` set rest")
    case True
    with res(4) obtain j o' where "(j, t) \<in> set rest" "outcome j t = Some o'"
      "res t = Some (to_result t o')" by blast
    then show ?thesis by auto
  next
    case False
    with t future have tt: "t = tid" by auto
    from False res(3) have "res t = ?results t" by blast
    with tt have "res t = Some (to_result t out)" by simp
    with tt out future show ?thesis by auto
  qed
  from 1 2 3 4 show ?case by blast
qed

lemma enumerate_futures:
  "(i, tid) \<in> set (enumerate 0 task_ids) \<longleftrightarrow> i < length task_ids \<and> task_ids ! i = tid"
  by (auto simp: in_set_enumerate_eq)

lemma snd_enumerate: "snd ` set (enumerate 0 task_ids) = set task_ids"
  using map_snd_enumerate [of 0 task_ids] by (metis set_map)

lemma run_pool_isolates:
  assumes ends: "\<forall>i < length task_ids. \<exists>out. poll_one i (task_ids ! i) = Some out"
    and perm: "mset completion = mset (enumerate 0 task_ids)"
  shows "\<exists>results.
      run_pool poll_one task_ids completion = Some (Inr results) \<and>
      dom results = set task_ids \<and>
      (task_ids = [] \<longrightarrow> results = Map.empty) \<and>
      (\<forall>tid \<in> set task_ids.
         \<exists>i out. i < length task_ids \<and> task_ids ! i = tid \<and> poll_one i tid = Some out \<and>
                 results tid = Some (to_result tid out)) \<and>
      (distinct task_ids \<longrightarrow>
         (\<forall>i < length task_ids.
            \<exists>out. poll_one i (task_ids ! i) = Some out \<and>
                  results (task_ids ! i) = Some (to_result (task_ids ! i) out)))"
proof -
  from perm have set_eq: "set completion = set (enumerate 0 task_ids)"
    by (rule mset_eq_setD)
  with ends have "\<forall>(i, tid) \<in> set completion. \<exists>out. poll_one i tid = Some out"
    by (auto simp: enumerate_futures)
  from as_completed_loop_collects [OF this, of Map.empty] obtain res where res:
    "as_completed_loop poll_one completion Map.empty = Some res"
    "dom res = snd ` set completion"
    "\<forall>tid \<in> snd ` set completion.
        \<exists>i out. (i, tid) \<in> set completion \<and> poll_one i tid = Some out \<and>
                res tid = Some (to_result tid out)"
    by auto
  have dom: "dom res = set task_ids"
    using res(2) by (simp add: set_eq snd_enumerate)
  have each: "\<exists>i out. i < length task_ids \<and> task_ids ! i = tid \<and> poll_one i tid = Some out \<and>
                 res tid = Some (to_result tid out)" if "tid \<in> set task_ids" for tid
  proof -
    from that have "tid \<in> snd ` set completion" by (simp add: set_eq snd_enumerate)
    with res(3) obtain i out where "(i, tid) \<in> set completion" "poll_one i tid = Some out"
      "res tid = Some (to_result tid out)" by blast
    with set_eq show ?thesis by (auto simp: enumerate_futures)
  qed
  have own: "\<exists>out. poll_one i (task_ids ! i) = Some out \<and>
                  res (task_ids ! i) = Some (to_result (task_ids ! i) out)"
    if d: "distinct task_ids" and i: "i < length task_ids" for i
  proof -
    from i have "task_ids ! i \<in> set task_ids" by simp
    from each [OF this] obtain j out where j: "j < length task_ids" "task_ids ! j = task_ids ! i"
      "poll_one j (task_ids ! i) = Some out" "res (task_ids ! i) = Some (to_result (task_ids ! i) out)"
      by blast
    from d i j(1,2) have "j = i" by (simp add: nth_eq_iff_index_eq)
    with j show ?thesis by blast
  qed
  show ?thesis
  proof (cases "task_ids = []")
    case True
    then show ?thesis by (simp add: run_pool_def)
  next
    case False
    then have "max_workers (length task_ids) \<noteq> 0" by (simp add: max_workers_def)
    with False res(1) have "run_pool poll_one task_ids completion = Some (Inr res)"
      by (simp add: run_pool_def)
    with dom each own False show ?thesis by blast
  qed
qed

lemma replicate_poll_one_ends:
  assumes "0 < \<delta>" and "\<forall>url k. \<delta> \<le> fst (vendor url k) + poll_interval"
  shows "\<exists>out. replicate_poll_one vendor urls max_wait poll_interval tid = Some out"
proof (cases "urls tid")
  case None
  then show ?thesis by (simp add: replicate_poll_one_def)
next
  case (Some url)
  from assms have "\<exists>out. poll_loop (vendor url) tid max_wait poll_interval loop_entry = Some out"
    by (intro poll_loop_ends [of \<delta>]) auto
  with Some show ?thesis
    by (auto simp: replicate_poll_one_def poll_prediction_def)
qed

lemma wavespeed_poll_one_ends:
  assumes "\<forall>url. poller tid url max_wait poll_interval True \<noteq> None"
  shows "\<exists>out. wavespeed_poll_one poller urls max_wait poll_interval tid = Some out"
  using assms
  by (auto simp: wavespeed_poll_one_def wavespeed_poll_video_def split: option.splits)



lemma to_result_case:
  "to_result tid out = (case out of Inl e \<Rightarrow> ErrorResult tid e | Inr r \<Rightarrow> r)"
  by (simp add: to_result_def split: sum.splits)

text \<open>
  What the pool returns, in terms of what one future does with a task id: \<open>unknown tid\<close>
  is the exception it raises when no poll URL is stored, \<open>call i tid url\<close> the poll it
  runs otherwise, and \<open>proj\<close> reads the outcome off what the poll gives back.
\<close>

lemma run_pool_outcomes:
  assumes unknown: "\<And>i tid. urls tid = None \<or> urls tid = Some [] \<Longrightarrow>
             poll_one i tid = Some (Inl (unknown tid))"
    and known: "\<And>i tid url. urls tid = Some url \<Longrightarrow> url \<noteq> [] \<Longrightarrow>
             poll_one i tid = map_option proj (call i tid url)"
    and ends: "\<And>i tid url. urls tid = Some url \<Longrightarrow> url \<noteq> [] \<Longrightarrow>
             \<exists>out. call i tid url = Some out"
    and perm: "mset completion = mset (enumerate 0 task_ids)"
  shows "\<exists>results.
      run_pool poll_one task_ids completion = Some (Inr results) \<and>
      dom results = set task_ids \<and>
      (task_ids = [] \<longrightarrow> results = Map.empty) \<and>
      (\<forall>i < length task_ids. \<forall>url. urls (task_ids ! i) = Some url \<and> url \<noteq> [] \<longrightarrow>
         (\<exists>out. call i (task_ids ! i) url = Some out)) \<and>
      (\<forall>tid \<in> set task_ids. urls tid = None \<or> urls tid = Some [] \<longrightarrow>
         results tid = Some (ErrorResult tid (unknown tid))) \<and>
      (\<forall>tid \<in> set task_ids. \<forall>url. urls tid = Some url \<and> url \<noteq> [] \<longrightarrow>
         (\<exists>i out. i < length task_ids \<and> task_ids ! i = tid \<and>
            call i tid url = Some out \<and>
            results tid = Some (case proj out of Inl e \<Rightarrow> ErrorResult tid e | Inr r \<Rightarrow> r))) \<and>
      (distinct task_ids \<longrightarrow>
         (\<forall>i < length task_ids. \<forall>url. urls (task_ids ! i) = Some url \<and> url \<noteq> [] \<longrightarrow>
            (\<exists>out. call i (task_ids ! i) url = Some out \<and>
               results (task_ids ! i) =
                 Some (case proj out of Inl e \<Rightarrow> ErrorResult (task_ids ! i) e
                       | Inr r \<Rightarrow> r))))"
proof -
  have total: "\<exists>out. poll_one i tid = Some out" for i tid
  proof (cases "urls tid = None \<or> urls tid = Some []")
    case True
    then show ?thesis using unknown by blast
  next
    case False
    then obtain url where url: "urls tid = Some url" "url \<noteq> []" by auto
    with ends obtain out where "call i tid url = Some out" by blast
    with known [OF url] show ?thesis by simp
  qed
  then have "\<forall>i < length task_ids. \<exists>out. poll_one i (task_ids ! i) = Some out" by blast
  from run_pool_isolates [where poll_one = poll_one and task_ids = task_ids
      and completion = completion, OF this perm] obtain results where r:
    "run_pool poll_one task_ids completion = Some (Inr results)"
    "dom results = set task_ids"
    "task_ids = [] \<longrightarrow> results = Map.empty"
    "\<forall>tid \<in> set task_ids.
        \<exists>i out. i < length task_ids \<and> task_ids ! i = tid \<and> poll_one i tid = Some out \<and>
                results tid = Some (to_result tid out)"
    "distinct task_ids \<longrightarrow>
       (\<forall>i < length task_ids.
          \<exists>out. poll_one i (task_ids ! i) = Some out \<and>
                results (task_ids ! i) = Some (to_result (task_ids ! i) out))"
    by blast
  have c4: "\<forall>i < length task_ids. \<forall>url. urls (task_ids ! i) = Some url \<and> url \<noteq> [] \<longrightarrow>
         (\<exists>out. call i (task_ids ! i) url = Some out)"
    using ends by blast
  have c5: "\<forall>tid \<in> set task_ids. urls tid = None \<or> urls tid = Some [] \<longrightarrow>
         results tid = Some (ErrorResult tid (unknown tid))"
  proof (intro ballI impI)
    fix tid assume tid: "tid \<in> set task_ids" and u: "urls tid = None \<or> urls tid = Some []"
    from r(4) tid obtain i out where "poll_one i tid = Some out"
      "results tid = Some (to_result tid out)" by blast
    with unknown [OF u, of i] show "results tid = Some (ErrorResult tid (unknown tid))"
      by (simp add: to_result_case)
  qed
  have c6: "\<forall>tid \<in> set task_ids. \<forall>url. urls tid = Some url \<and> url \<noteq> [] \<longrightarrow>
         (\<exists>i out. i < length task_ids \<and> task_ids ! i = tid \<and>
            call i tid url = Some out \<and>
            results tid = Some (case proj out of Inl e \<Rightarrow> ErrorResult tid e | Inr r \<Rightarrow> r))"
  proof (intro ballI allI impI)
    fix tid url assume tid: "tid \<in> set task_ids" and u: "urls tid = Some url \<and> url \<noteq> []"
    from r(4) tid obtain i out where i: "i < length task_ids" "task_ids ! i = tid"
      "poll_one i tid = Some out" "results tid = Some (to_result tid out)" by blast
    from u ends obtain out' where out': "call i tid url = Some out'" by blast
    with known [of tid url i] u i(3) have "out = proj out'" by simp
    with i out' show "\<exists>i out. i < length task_ids \<and> task_ids ! i = tid \<and>
            call i tid url = Some out \<and>
            results tid = Some (case proj out of Inl e \<Rightarrow> ErrorResult tid e | Inr r \<Rightarrow> r)"
      by (auto simp: to_result_case)
  qed
  have c7: "distinct task_ids \<longrightarrow>
         (\<forall>i < length task_ids. \<forall>url. urls (task_ids ! i) = Some url \<and> url \<noteq> [] \<longrightarrow>
            (\<exists>out. call i (task_ids ! i) url = Some out \<and>
               results (task_ids ! i) =
                 Some (case proj out of Inl e \<Rightarrow> ErrorResult (task_ids ! i) e
                       | Inr r \<Rightarrow> r)))"
  proof (intro impI allI)
    fix i url
    assume d: "distinct task_ids" and i: "i < length task_ids"
      and u: "urls (task_ids ! i) = Some url \<and> url \<noteq> []"
    from r(5) d i obtain out where o: "poll_one i (task_ids ! i) = Some out"
      "results (task_ids ! i) = Some (to_result (task_ids ! i) out)" by blast
    from u ends obtain out' where out': "call i (task_ids ! i) url = Some out'" by blast
    with known [of "task_ids ! i" url i] u o(1) have "out = proj out'" by simp
    with o out' show "\<exists>out. call i (task_ids ! i) url = Some out \<and>
               results (task_ids ! i) =
                 Some (case proj out of Inl e \<Rightarrow> ErrorResult (task_ids ! i) e
                       | Inr r \<Rightarrow> r)"
      by (auto simp: to_result_case)
  qed
  from r(1,2,3) c4 c5 c6 c7 show ?thesis by blast
qed

lemma replicate_poll_one_unknown:
  "urls tid = None \<or> urls tid = Some [] \<Longrightarrow>
   replicate_poll_one vendor urls max_wait poll_interval tid = Some (Inl (NoPollURL tid))"
  by (auto simp: replicate_poll_one_def)

lemma replicate_poll_one_known:
  "urls tid = Some url \<Longrightarrow> url \<noteq> [] \<Longrightarrow>
   replicate_poll_one vendor urls max_wait poll_interval tid
     = map_option fst (poll_prediction vendor tid url max_wait poll_interval True)"
  by (simp add: replicate_poll_one_def)

lemma wavespeed_poll_one_unknown:
  "urls tid = None \<or> urls tid = Some [] \<Longrightarrow>
   wavespeed_poll_one poller urls max_wait poll_interval tid
     = Some (Inl (NoPollURLStored ''WaveSpeed'' tid ''submit_video''))"
  by (auto simp: wavespeed_poll_one_def wavespeed_poll_video_def)

lemma wavespeed_poll_one_known:
  "urls tid = Some url \<Longrightarrow> url \<noteq> [] \<Longrightarrow>
   wavespeed_poll_one poller urls max_wait poll_interval tid
     = map_option (\<lambda>out. out) (poller tid url max_wait poll_interval True)"
  by (simp add: wavespeed_poll_one_def wavespeed_poll_video_def option.map_ident)

text \<open>
  Claim C1. Let the futures complete in any order (\<open>completion\<close> is a permutation of the
  futures of \<open>task_ids\<close>). For Replicate, let time pass (every pass of a poll loop
  takes at least some \<open>\<delta> > 0\<close>, request and sleep together), so that every poll loop
  ends; for WaveSpeed, whose poll loop \<open>poll_wavespeed_task\<close> lives in \<open>utils\<close>, let
  every call of it end. Then \<open>poll_tasks_parallel\<close> returns a dict and raises nothing,
  whatever the task ids are and whatever each poll returned or raised. The keys of the
  dict are exactly the task ids, and the empty list gives the empty dict. Every poll loop
  runs to its end. A task id with no poll URL stored holds the error result of the
  exception \<open>_poll_one\<close> raises for it. A task id with a poll URL holds the outcome of a
  poll loop run on it: the result the loop returned as it is, and the exception it raised
  (a timeout included) as the error result that carries the task id and the exception.
  When the ids are distinct, every task holds the outcome of its own loop.
\<close>

theorem poll_tasks_parallel_isolation:
  assumes "mset completion = mset (enumerate 0 task_ids)"
  shows
    "(0 < \<delta> \<and> (\<forall>i url k. \<delta> \<le> fst (vendors i url k) + poll_interval) \<longrightarrow>
        (\<exists>results.
           replicate_poll_tasks_parallel vendors urls task_ids max_wait poll_interval completion = Some (Inr results) \<and>
           dom results = set task_ids \<and>
           (task_ids = [] \<longrightarrow> results = Map.empty) \<and>
           (\<forall>i < length task_ids. \<forall>url. urls (task_ids ! i) = Some url \<and> url \<noteq> [] \<longrightarrow>
              (\<exists>out. poll_prediction (vendors i) (task_ids ! i) url max_wait poll_interval True = Some out)) \<and>
           (\<forall>tid \<in> set task_ids. urls tid = None \<or> urls tid = Some [] \<longrightarrow>
              results tid = Some (ErrorResult tid (NoPollURL tid))) \<and>
           (\<forall>tid \<in> set task_ids. \<forall>url. urls tid = Some url \<and> url \<noteq> [] \<longrightarrow>
              (\<exists>i out. i < length task_ids \<and> task_ids ! i = tid \<and>
                 poll_prediction (vendors i) tid url max_wait poll_interval True = Some out \<and>
                 results tid = Some (case fst out of Inl e \<Rightarrow> ErrorResult tid e | Inr r \<Rightarrow> r))) \<and>
           (distinct task_ids \<longrightarrow>
              (\<forall>i < length task_ids. \<forall>url. urls (task_ids ! i) = Some url \<and> url \<noteq> [] \<longrightarrow>
                 (\<exists>out. poll_prediction (vendors i) (task_ids ! i) url max_wait poll_interval True = Some out \<and>
                    results (task_ids ! i) =
                      Some (case fst out of Inl e \<Rightarrow> ErrorResult (task_ids ! i) e
                            | Inr r \<Rightarrow> r)))))) \<and>
     ((\<forall>i tid url. pollers i tid url max_wait poll_interval True \<noteq> None) \<longrightarrow>
        (\<exists>results.
           wavespeed_poll_tasks_parallel pollers urls task_ids max_wait poll_interval completion = Some (Inr results) \<and>
           dom results = set task_ids \<and>
           (task_ids = [] \<longrightarrow> results = Map.empty) \<and>
           (\<forall>i < length task_ids. \<forall>url. urls (task_ids ! i) = Some url \<and> url \<noteq> [] \<longrightarrow>
              (\<exists>out. pollers i (task_ids ! i) url max_wait poll_interval True = Some out)) \<and>
           (\<forall>tid \<in> set task_ids. urls tid = None \<or> urls tid = Some [] \<longrightarrow>
              results tid = Some (ErrorResult tid (NoPollURLStored ''WaveSpeed'' tid ''submit_video''))) \<and>
           (\<forall>tid \<in> set task_ids. \<forall>url. urls tid = Some url \<and> url \<noteq> [] \<longrightarrow>
              (\<exists>i out. i < length task_ids \<and> task_ids ! i = tid \<and>
                 pollers i tid url max_wait poll_interval True = Some out \<and>
                 results tid = Some (case out of Inl e \<Rightarrow> ErrorResult tid e | Inr r \<Rightarrow> r))) \<and>
           (distinct task_ids \<longrightarrow>
              (\<forall>i < length task_ids. \<forall>url. urls (task_ids ! i) = Some url \<and> url \<noteq> [] \<longrightarrow>
                 (\<exists>out. pollers i (task_ids ! i) url max_wait poll_interval True = Some out \<and>
                    results (task_ids ! i) =
                      Some (case out of Inl e \<Rightarrow> ErrorResult (task_ids ! i) e
                            | Inr r \<Rightarrow> r))))))"
proof (intro conjI impI)
  assume a: "0 < \<delta> \<and> (\<forall>i url k. \<delta> \<le> fst (vendors i url k) + poll_interval)"
  have ends: "\<exists>out. poll_prediction (vendors i) tid url max_wait poll_interval True = Some out"
    for i tid url
    unfolding poll_prediction_def using a by (intro poll_loop_ends [of \<delta>]) auto
  from run_pool_outcomes
    [where poll_one = "\<lambda>i tid. replicate_poll_one (vendors i) urls max_wait poll_interval tid"
       and urls = urls and unknown = NoPollURL and proj = fst
       and call = "\<lambda>i tid url. poll_prediction (vendors i) tid url max_wait poll_interval True"
       and completion = completion and task_ids = task_ids,
     OF replicate_poll_one_unknown replicate_poll_one_known ends assms]
  show "(\<exists>results.
           replicate_poll_tasks_parallel vendors urls task_ids max_wait poll_interval completion = Some (Inr results) \<and>
           dom results = set task_ids \<and>
           (task_ids = [] \<longrightarrow> results = Map.empty) \<and>
           (\<forall>i < length task_ids. \<forall>url. urls (task_ids ! i) = Some url \<and> url \<noteq> [] \<longrightarrow>
              (\<exists>out. poll_prediction (vendors i) (task_ids ! i) url max_wait poll_interval True = Some out)) \<and>
           (\<forall>tid \<in> set task_ids. urls tid = None \<or> urls tid = Some [] \<longrightarrow>
              results tid = Some (ErrorResult tid (NoPollURL tid))) \<and>
           (\<forall>tid \<in> set task_ids. \<forall>url. urls tid = Some url \<and> url \<noteq> [] \<longrightarrow>
              (\<exists>i out. i < length task_ids \<and> task_ids ! i = tid \<and>
                 poll_prediction (vendors i) tid url max_wait poll_interval True = Some out \<and>
                 results tid = Some (case fst out of Inl e \<Rightarrow> ErrorResult tid e | Inr r \<Rightarrow> r))) \<and>
           (distinct task_ids \<longrightarrow>
              (\<forall>i < length task_ids. \<forall>url. urls (task_ids ! i) = Some url \<and> url \<noteq> [] \<longrightarrow>
                 (\<exists>out. poll_prediction (vendors i) (task_ids ! i) url max_wait poll_interval True = Some out \<and>
                    results (task_ids ! i) =
                      Some (case fst out of Inl e \<Rightarrow> ErrorResult (task_ids ! i) e
                            | Inr r \<Rightarrow> r)))))"
    unfolding replicate_poll_tasks_parallel_def by simp
next
  assume a: "\<forall>i tid url. pollers i tid url max_wait poll_interval True \<noteq> None"
  then have ends: "\<exists>out. pollers i tid url max_wait poll_interval True = Some out" for i tid url
    by auto
  from run_pool_outcomes
    [where poll_one = "\<lambda>i tid. wavespeed_poll_one (pollers i) urls max_wait poll_interval tid"
       and urls = urls and unknown = "\<lambda>tid. NoPollURLStored ''WaveSpeed'' tid ''submit_video''"
       and proj = "\<lambda>out. out"
       and call = "\<lambda>i tid url. pollers i tid url max_wait poll_interval True"
       and completion = completion and task_ids = task_ids,
     OF wavespeed_poll_one_unknown wavespeed_poll_one_known ends assms]
  show "(\<exists>results.
           wavespeed_poll_tasks_parallel pollers urls task_ids max_wait poll_interval completion = Some (Inr results) \<and>
           dom results = set task_ids \<and>
           (task_ids = [] \<longrightarrow> results = Map.empty) \<and>
           (\<forall>i < length task_ids. \<forall>url. urls (task_ids ! i) = Some url \<and> url \<noteq> [] \<longrightarrow>
              (\<exists>out. pollers i (task_ids ! i) url max_wait poll_interval True = Some out)) \<and>
           (\<forall>tid \<in> set task_ids. urls tid = None \<or> urls tid = Some [] \<longrightarrow>
              results tid = Some (ErrorResult tid (NoPollURLStored ''WaveSpeed'' tid ''submit_video''))) \<and>
           (\<forall>tid \<in> set task_ids. \<forall>url. urls tid = Some url \<and> url \<noteq> [] \<longrightarrow>
              (\<exists>i out. i < length task_ids \<and> task_ids ! i = tid \<and>
                 pollers i tid url max_wait poll_interval True = Some out \<and>
                 results tid = Some (case out of Inl e \<Rightarrow> ErrorResult tid e | Inr r \<Rightarrow> r))) \<and>
           (distinct task_ids \<longrightarrow>
              (\<forall>i < length task_ids. \<forall>url. urls (task_ids ! i) = Some url \<and> url \<noteq> [] \<longrightarrow>
                 (\<exists>out. pollers i (task_ids ! i) url max_wait poll_interval True = Some out \<and>
                    results (task_ids ! i) =
                      Some (case out of Inl e \<Rightarrow> ErrorResult (task_ids ! i) e
                            | Inr r \<Rightarrow> r)))))"
    unfolding wavespeed_poll_tasks_parallel_def by simp
qed

text \<open>
  A run on four tasks: the first succeeds, the request of the second raises, the third
  times out and the fourth has no poll URL stored. They complete in the order third,
  first, fourth, second.
\<close>

lemma sample_poll_prediction:
  "poll_prediction (sample_vendors 0) ''a'' ''https://poll/a'' 12 5 True
     = Some (Inr (Success ''a'' (JStr ''u1'')), \<lparr>elapsed = 1, retry_count = 0, polls = 1\<rparr>)"
  "poll_prediction (sample_vendors (Suc 0)) ''b'' ''https://poll/b'' 12 5 True
     = Some (Inl (OtherException ''ConnectionError''),
             \<lparr>elapsed = 1, retry_count = 0, polls = 1\<rparr>)"
  "poll_prediction (sample_vendors 2) ''c'' ''https://poll/c'' 12 5 True
     = Some (Inl (Timeout 12), \<lparr>elapsed = 15, retry_count = 0, polls = 3\<rparr>)"
  by (simp_all add: sample_vendors_def
      poll_prediction_def poll_loop.simps poll_iteration_def loop_entry_def sleep_def
      succeeded_response_def processing_response_def status_of_def dict_get_def Let_def)

lemma sample_parallel_run:
  "replicate_poll_tasks_parallel sample_vendors sample_urls [''a'', ''b'', ''c'', ''d''] 12 5
       [(2, ''c''), (0, ''a''), (3, ''d''), (1, ''b'')]
     = Some (Inr [''c'' \<mapsto> ErrorResult ''c'' (Timeout 12),
                  ''a'' \<mapsto> Success ''a'' (JStr ''u1''),
                  ''d'' \<mapsto> ErrorResult ''d'' (NoPollURL ''d''),
                  ''b'' \<mapsto> ErrorResult ''b'' (OtherException ''ConnectionError'')])"
  by (simp add: replicate_poll_tasks_parallel_def run_pool_def max_workers_def
      replicate_poll_one_def sample_urls_def sample_poll_prediction to_result_def)

lemma sample_wavespeed_parallel_run:
  "wavespeed_poll_tasks_parallel sample_pollers sample_urls [''a'', ''b'', ''c'', ''d''] 12 5
       [(2, ''c''), (0, ''a''), (3, ''d''), (1, ''b'')]
     = Some (Inr [''c'' \<mapsto> Success ''c'' (JStr ''https://poll/c''),
                  ''a'' \<mapsto> Success ''a'' (JStr ''https://poll/a''),
                  ''d'' \<mapsto> ErrorResult ''d'' (NoPollURLStored ''WaveSpeed'' ''d'' ''submit_video''),
                  ''b'' \<mapsto> ErrorResult ''b'' (OtherException ''ConnectionError'')])"
  by (simp add: wavespeed_poll_tasks_parallel_def run_pool_def max_workers_def
      wavespeed_poll_one_def wavespeed_poll_video_def sample_urls_def sample_pollers_def
      to_result_def)

text \<open>The theorem at that run, for both adapters.\<close>

theorem poll_tasks_parallel_isolation_witness:
  "mset [(2, ''c''), (0, ''a''), (3, ''d''), (1, ''b'')]
     = mset (enumerate 0 [''a'', ''b'', ''c'', ''d'']) \<and>
   (0::real) < 5 \<and> (\<forall>i url k. 5 \<le> fst (sample_vendors i url k) + 5) \<and>
   (\<exists>results.
      replicate_poll_tasks_parallel sample_vendors sample_urls [''a'', ''b'', ''c'', ''d''] 12 5
          [(2, ''c''), (0, ''a''), (3, ''d''), (1, ''b'')] = Some (Inr results) \<and>
      dom results = {''a'', ''b'', ''c'', ''d''} \<and>
      results ''a'' = Some (Success ''a'' (JStr ''u1'')) \<and>
      results ''b'' = Some (ErrorResult ''b'' (OtherException ''ConnectionError'')) \<and>
      results ''c'' = Some (ErrorResult ''c'' (Timeout 12)) \<and>
      results ''d'' = Some (ErrorResult ''d'' (NoPollURL ''d''))) \<and>
   (\<forall>i tid url. sample_pollers i tid url 12 5 True \<noteq> None) \<and>
   (\<exists>results.
      wavespeed_poll_tasks_parallel sample_pollers sample_urls [''a'', ''b'', ''c'', ''d''] 12 5
          [(2, ''c''), (0, ''a''), (3, ''d''), (1, ''b'')] = Some (Inr results) \<and>
      dom results = {''a'', ''b'', ''c'', ''d''} \<and>
      results ''a'' = Some (Success ''a'' (JStr ''https://poll/a'')) \<and>
      results ''b'' = Some (ErrorResult ''b'' (OtherException ''ConnectionError'')) \<and>
      results ''c'' = Some (Success ''c'' (JStr ''https://poll/c'')) \<and>
      results ''d'' = Some (ErrorResult ''d'' (NoPollURLStored ''WaveSpeed'' ''d'' ''submit_video'')))"
proof -
  let ?ids = "[''a'', ''b'', ''c'', ''d'']"
  let ?order = "[(2::nat, ''c''), (0, ''a''), (3, ''d''), (1, ''b'')]"
  have perm: "mset ?order = mset (enumerate 0 ?ids)"
    by (simp add: numeral_2_eq_2 numeral_3_eq_3)
  have pi: "(0::real) < 5" by simp
  have lat: "\<forall>i url k. 5 \<le> fst (sample_vendors i url k) + 5"
    by (simp add: sample_vendors_def)
  have ends: "\<forall>i tid url. sample_pollers i tid url 12 5 True \<noteq> None"
    by (simp add: sample_pollers_def)
  have d: "distinct ?ids" by simp
  have ua: "sample_urls ''a'' = Some ''https://poll/a'' \<and> ''https://poll/a'' \<noteq> []"
    and ub: "sample_urls ''b'' = Some ''https://poll/b'' \<and> ''https://poll/b'' \<noteq> []"
    and uc: "sample_urls ''c'' = Some ''https://poll/c'' \<and> ''https://poll/c'' \<noteq> []"
    and ud: "sample_urls ''d'' = None \<or> sample_urls ''d'' = Some []"
    by (simp_all add: sample_urls_def)
  note inst = poll_tasks_parallel_isolation [OF perm, where poll_interval = 5 and \<delta> = 5
      and vendors = sample_vendors and urls = sample_urls and max_wait = 12
      and pollers = sample_pollers]
  from inst [THEN conjunct1, THEN mp, OF conjI [OF pi lat]]
  obtain results where R:
    "replicate_poll_tasks_parallel sample_vendors sample_urls ?ids 12 5 ?order = Some (Inr results) \<and>
           dom results = set ?ids \<and>
           (?ids = [] \<longrightarrow> results = Map.empty) \<and>
           (\<forall>i < length ?ids. \<forall>url. sample_urls (?ids ! i) = Some url \<and> url \<noteq> [] \<longrightarrow>
              (\<exists>out. poll_prediction (sample_vendors i) (?ids ! i) url 12 5 True = Some out)) \<and>
           (\<forall>tid \<in> set ?ids. sample_urls tid = None \<or> sample_urls tid = Some [] \<longrightarrow>
              results tid = Some (ErrorResult tid (NoPollURL tid))) \<and>
           (\<forall>tid \<in> set ?ids. \<forall>url. sample_urls tid = Some url \<and> url \<noteq> [] \<longrightarrow>
              (\<exists>i out. i < length ?ids \<and> ?ids ! i = tid \<and>
                 poll_prediction (sample_vendors i) tid url 12 5 True = Some out \<and>
                 results tid = Some (case fst out of Inl e \<Rightarrow> ErrorResult tid e | Inr r \<Rightarrow> r))) \<and>
           (distinct ?ids \<longrightarrow>
              (\<forall>i < length ?ids. \<forall>url. sample_urls (?ids ! i) = Some url \<and> url \<noteq> [] \<longrightarrow>
                 (\<exists>out. poll_prediction (sample_vendors i) (?ids ! i) url 12 5 True = Some out \<and>
                    results (?ids ! i) =
                      Some (case fst out of Inl e \<Rightarrow> ErrorResult (?ids ! i) e
                            | Inr r \<Rightarrow> r))))" ..
  note r1 = R [THEN conjunct1]
    and r2 = R [THEN conjunct2, THEN conjunct1]
    and r5 = R [THEN conjunct2, THEN conjunct2, THEN conjunct2, THEN conjunct2, THEN conjunct1]
    and r7 = R [THEN conjunct2, THEN conjunct2, THEN conjunct2, THEN conjunct2, THEN conjunct2,
        THEN conjunct2]
  from r7 d have own: "\<exists>out. poll_prediction (sample_vendors i) (?ids ! i) url 12 5 True = Some out \<and>
             results (?ids ! i) =
               Some (case fst out of Inl e \<Rightarrow> ErrorResult (?ids ! i) e | Inr r \<Rightarrow> r)"
    if "i < length ?ids" "sample_urls (?ids ! i) = Some url \<and> url \<noteq> []" for i url
    using that by blast
  from own [of 0 "''https://poll/a''"] ua
  have a: "results ''a'' = Some (Success ''a'' (JStr ''u1''))"
    by (simp add: sample_poll_prediction)
  from own [of 1 "''https://poll/b''"] ub
  have b: "results ''b'' = Some (ErrorResult ''b'' (OtherException ''ConnectionError''))"
    by (simp add: sample_poll_prediction)
  from own [of 2 "''https://poll/c''"] uc
  have c: "results ''c'' = Some (ErrorResult ''c'' (Timeout 12))"
    by (simp add: sample_poll_prediction)
  from r5 [rule_format, OF _ ud] have dd: "results ''d'' = Some (ErrorResult ''d'' (NoPollURL ''d''))"
    by simp
  from r2 have dom: "dom results = {''a'', ''b'', ''c'', ''d''}" by simp
  from inst [THEN conjunct2, THEN mp, OF ends]
  obtain results' where W:
    "wavespeed_poll_tasks_parallel sample_pollers sample_urls ?ids 12 5 ?order = Some (Inr results') \<and>
           dom results' = set ?ids \<and>
           (?ids = [] \<longrightarrow> results' = Map.empty) \<and>
           (\<forall>i < length ?ids. \<forall>url. sample_urls (?ids ! i) = Some url \<and> url \<noteq> [] \<longrightarrow>
              (\<exists>out. sample_pollers i (?ids ! i) url 12 5 True = Some out)) \<and>
           (\<forall>tid \<in> set ?ids. sample_urls tid = None \<or> sample_urls tid = Some [] \<longrightarrow>
              results' tid = Some (ErrorResult tid (NoPollURLStored ''WaveSpeed'' tid ''submit_video''))) \<and>
           (\<forall>tid \<in> set ?ids. \<forall>url. sample_urls tid = Some url \<and> url \<noteq> [] \<longrightarrow>
              (\<exists>i out. i < length ?ids \<and> ?ids ! i = tid \<and>
                 sample_pollers i tid url 12 5 True = Some out \<and>
                 results' tid = Some (case out of Inl e \<Rightarrow> ErrorResult tid e | Inr r \<Rightarrow> r))) \<and>
           (distinct ?ids \<longrightarrow>
              (\<forall>i < length ?ids. \<forall>url. sample_urls (?ids ! i) = Some url \<and> url \<noteq> [] \<longrightarrow>
                 (\<exists>out. sample_pollers i (?ids ! i) url 12 5 True = Some out \<and>
                    results' (?ids ! i) =
                      Some (case out of Inl e \<Rightarrow> ErrorResult (?ids ! i) e
                            | Inr r \<Rightarrow> r))))" ..
  note w1 = W [THEN conjunct1]
    and w2 = W [THEN conjunct2, THEN conjunct1]
    and w5 = W [THEN conjunct2, THEN conjunct2, THEN conjunct2, THEN conjunct2, THEN conjunct1]
    and w7 = W [THEN conjunct2, THEN conjunct2, THEN conjunct2, THEN conjunct2, THEN conjunct2,
        THEN conjunct2]
  from w7 d have own': "\<exists>out. sample_pollers i (?ids ! i) url 12 5 True = Some out \<and>
             results' (?ids ! i) =
               Some (case out of Inl e \<Rightarrow> ErrorResult (?ids ! i) e | Inr r \<Rightarrow> r)"
    if "i < length ?ids" "sample_urls (?ids ! i) = Some url \<and> url \<noteq> []" for i url
    using that by blast
  from own' [of 0 "''https://poll/a''"] ua
  have a': "results' ''a'' = Some (Success ''a'' (JStr ''https://poll/a''))"
    by (simp add: sample_pollers_def)
  from own' [of 1 "''https://poll/b''"] ub
  have b': "results' ''b'' = Some (ErrorResult ''b'' (OtherException ''ConnectionError''))"
    by (simp add: sample_pollers_def)
  from own' [of 2 "''https://poll/c''"] uc
  have c': "results' ''c'' = Some (Success ''c'' (JStr ''https://poll/c''))"
    by (simp add: sample_pollers_def)
  from w5 [rule_format, OF _ ud]
  have d': "results' ''d'' = Some (ErrorResult ''d'' (NoPollURLStored ''WaveSpeed'' ''d'' ''submit_video''))"
    by simp
  from w2 have dom': "dom results' = {''a'', ''b'', ''c'', ''d''}" by simp
  from r1 dom a b c dd have RR: "\<exists>results.
      replicate_poll_tasks_parallel sample_vendors sample_urls ?ids 12 5 ?order = Some (Inr results) \<and>
      dom results = {''a'', ''b'', ''c'', ''d''} \<and>
      results ''a'' = Some (Success ''a'' (JStr ''u1'')) \<and>
      results ''b'' = Some (ErrorResult ''b'' (OtherException ''ConnectionError'')) \<and>
      results ''c'' = Some (ErrorResult ''c'' (Timeout 12)) \<and>
      results ''d'' = Some (ErrorResult ''d'' (NoPollURL ''d''))" by blast
  from w1 dom' a' b' c' d' have WW: "\<exists>results.
      wavespeed_poll_tasks_parallel sample_pollers sample_urls ?ids 12 5 ?order = Some (Inr results) \<and>
      dom results = {''a'', ''b'', ''c'', ''d''} \<and>
      results ''a'' = Some (Success ''a'' (JStr ''https://poll/a'')) \<and>
      results ''b'' = Some (ErrorResult ''b'' (OtherException ''ConnectionError'')) \<and>
      results ''c'' = Some (Success ''c'' (JStr ''https://poll/c'')) \<and>
      results ''d'' = Some (ErrorResult ''d'' (NoPollURLStored ''WaveSpeed'' ''d'' ''submit_video''))"
    by blast
  from perm pi lat RR ends WW show ?thesis by (intro conjI)
qed


section \<open>Handles and the dict of poll URLs\<close>

lemma submit_prediction_Inr:
  assumes "submit_prediction post model_path input_payload = Inr (task_id, poll_url)"
  shows "task_id \<noteq> [] \<and> poll_url \<noteq> []"
  using assms
  by (auto simp: submit_prediction_def
      split: post_outcome.splits if_splits option.splits prod.splits)

lemma replicate_submit_image_Inr:
  assumes "replicate_submit_image post urls prompt aspect_ratio resolution model = Inr (task_id, urls')"
  shows "\<exists>poll_url. poll_url \<noteq> [] \<and> urls' = urls(task_id \<mapsto> poll_url)"
  using assms submit_prediction_Inr
  by (fastforce simp: replicate_submit_image_def Let_def
      split: option.splits if_splits sum.splits prod.splits)

lemma replicate_submit_video_Inr:
  assumes "replicate_submit_video post urls prompt image_url model duration aspect_ratio
             = Inr (task_id, urls')"
  shows "\<exists>poll_url. poll_url \<noteq> [] \<and> urls' = urls(task_id \<mapsto> poll_url)"
  using assms submit_prediction_Inr
  by (fastforce simp: replicate_submit_video_def Let_def
      split: option.splits if_splits sum.splits prod.splits)

lemma adapter_run_invariant:
  assumes "adapter_run urls issued"
  shows "dom urls = issued \<and> (\<forall>task_id poll_url. urls task_id = Some poll_url \<longrightarrow> poll_url \<noteq> [])"
  using assms
proof (induction rule: adapter_run.induct)
  case at_import
  then show ?case by simp
next
  case (after_submit_image urls issued post prompt aspect_ratio resolution model task_id urls')
  from after_submit_image.hyps(2) obtain poll_url
    where "poll_url \<noteq> []" "urls' = urls(task_id \<mapsto> poll_url)"
    using replicate_submit_image_Inr by blast
  with after_submit_image.IH show ?case by auto
next
  case (after_submit_video urls issued post prompt image_url model duration aspect_ratio task_id urls')
  from after_submit_video.hyps(2) obtain poll_url
    where "poll_url \<noteq> []" "urls' = urls(task_id \<mapsto> poll_url)"
    using replicate_submit_video_Inr by blast
  with after_submit_video.IH show ?case by auto
qed

lemma poll_iteration_not_unknown:
  "poll_iteration task_id poll_interval reply s \<noteq> (Raise (NoPollURLStored p t h), s')"
  by (auto simp: poll_iteration_def sleep_def Let_def
      split: get_outcome.splits if_splits option.splits json.splits)

lemma poll_loop_not_unknown:
  assumes "poll_loop replies task_id max_wait poll_interval s = Some y"
  shows "\<not> unknown_handle (Some y)"
proof (rule poll_loop.raw_induct
    [where P = "\<lambda>replies task_id max_wait poll_interval s y. \<not> unknown_handle (Some y)",
     OF _ assms], goal_cases)
  case (1 f replies task_id max_wait poll_interval s y)
  note IH = "1"(1) and unfolded = "1"(2)
  obtain c s1 where it: "poll_iteration task_id poll_interval (replies (polls s)) s = (c, s1)"
    by (cases "poll_iteration task_id poll_interval (replies (polls s)) s")
  show ?case
  proof (cases "elapsed s < max_wait")
    case False
    with unfolded show ?thesis by auto
  next
    case True
    show ?thesis
    proof (cases c)
      case (Return r)
      with unfolded True it show ?thesis by auto
    next
      case (Raise e)
      with unfolded True it have y: "y = (Inl e, s1)" by auto
      from it Raise have "\<And>p t h. e \<noteq> NoPollURLStored p t h"
        using poll_iteration_not_unknown by blast
      with y show ?thesis by (cases e) auto
    next
      case Again
      with unfolded True it have "f replies task_id max_wait poll_interval s1 = Some y" by simp
      then show ?thesis by (rule IH)
    qed
  qed
qed

lemma poll_prediction_not_unknown:
  "\<not> unknown_handle (poll_prediction vendor task_id poll_url max_wait poll_interval quiet)"
proof (cases "poll_prediction vendor task_id poll_url max_wait poll_interval quiet")
  case None
  then show ?thesis by simp
next
  case (Some y)
  then show ?thesis using poll_loop_not_unknown by (simp add: poll_prediction_def)
qed

lemma replicate_poll_image_unknown:
  "unknown_handle (replicate_poll_image vendor urls task_id max_wait poll_interval quiet)
     \<longleftrightarrow> urls task_id = None \<or> urls task_id = Some []"
  using poll_prediction_not_unknown
  by (auto simp: replicate_poll_image_def split: option.splits)

lemma replicate_poll_video_unknown:
  "unknown_handle (replicate_poll_video vendor urls task_id max_wait poll_interval quiet)
     \<longleftrightarrow> urls task_id = None \<or> urls task_id = Some []"
  using poll_prediction_not_unknown
  by (auto simp: replicate_poll_video_def split: option.splits)

text \<open>
  Claim C7, for the Replicate adapter. In every state the adapter reaches, with
  \<open>issued\<close> the task ids its submit calls have returned: \<open>poll_image\<close> and \<open>poll_video\<close>
  raise the unknown-handle error exactly for the task ids outside \<open>issued\<close>; for such an
  id they raise it at once, in the entry state, where no request has been made; and a
  further \<open>submit_image\<close> or \<open>submit_video\<close> that returns a task id has stored a
  non-empty poll URL under it in the dict it leaves behind, so that polling the id there
  does not raise the unknown-handle error.
\<close>

theorem unknown_handle_iff_never_issued:
  assumes "adapter_run urls issued"
  shows
    "(unknown_handle (replicate_poll_image vendor urls task_id max_wait poll_interval quiet)
        \<longleftrightarrow> task_id \<notin> issued) \<and>
     (unknown_handle (replicate_poll_video vendor urls task_id max_wait poll_interval quiet)
        \<longleftrightarrow> task_id \<notin> issued) \<and>
     (task_id \<notin> issued \<longrightarrow>
        replicate_poll_image vendor urls task_id max_wait poll_interval quiet
          = Some (Inl (NoPollURLStored ''Replicate'' task_id ''submit_image''), loop_entry) \<and>
        replicate_poll_video vendor urls task_id max_wait poll_interval quiet
          = Some (Inl (NoPollURLStored ''Replicate'' task_id ''submit_video''), loop_entry) \<and>
        polls loop_entry = 0) \<and>
     (\<forall>post prompt aspect_ratio resolution model new_id urls'.
        replicate_submit_image post urls prompt aspect_ratio resolution model = Inr (new_id, urls')
        \<longrightarrow> (\<exists>poll_url. poll_url \<noteq> [] \<and> urls' new_id = Some poll_url) \<and>
            adapter_run urls' (insert new_id issued) \<and>
            \<not> unknown_handle (replicate_poll_image vendor urls' new_id max_wait poll_interval quiet)) \<and>
     (\<forall>post prompt image_url model duration aspect_ratio new_id urls'.
        replicate_submit_video post urls prompt image_url model duration aspect_ratio
          = Inr (new_id, urls')
        \<longrightarrow> (\<exists>poll_url. poll_url \<noteq> [] \<and> urls' new_id = Some poll_url) \<and>
            adapter_run urls' (insert new_id issued) \<and>
            \<not> unknown_handle (replicate_poll_video vendor urls' new_id max_wait poll_interval quiet))"
proof -
  from assms have inv: "dom urls = issued"
    "\<forall>task_id poll_url. urls task_id = Some poll_url \<longrightarrow> poll_url \<noteq> []"
    using adapter_run_invariant by blast+
  have known: "(urls task_id = None \<or> urls task_id = Some []) \<longleftrightarrow> task_id \<notin> issued"
    using inv by (auto simp: domIff)
  have c1: "unknown_handle (replicate_poll_image vendor urls task_id max_wait poll_interval quiet)
        \<longleftrightarrow> task_id \<notin> issued"
    using known by (simp add: replicate_poll_image_unknown)
  have c2: "unknown_handle (replicate_poll_video vendor urls task_id max_wait poll_interval quiet)
        \<longleftrightarrow> task_id \<notin> issued"
    using known by (simp add: replicate_poll_video_unknown)
  have c3: "task_id \<notin> issued \<longrightarrow>
        replicate_poll_image vendor urls task_id max_wait poll_interval quiet
          = Some (Inl (NoPollURLStored ''Replicate'' task_id ''submit_image''), loop_entry) \<and>
        replicate_poll_video vendor urls task_id max_wait poll_interval quiet
          = Some (Inl (NoPollURLStored ''Replicate'' task_id ''submit_video''), loop_entry) \<and>
        polls loop_entry = 0"
    using inv(1)
    by (auto simp: replicate_poll_image_def replicate_poll_video_def loop_entry_def domIff
        split: option.splits)
  have c4: "\<forall>post prompt aspect_ratio resolution model new_id urls'.
        replicate_submit_image post urls prompt aspect_ratio resolution model = Inr (new_id, urls')
        \<longrightarrow> (\<exists>poll_url. poll_url \<noteq> [] \<and> urls' new_id = Some poll_url) \<and>
            adapter_run urls' (insert new_id issued) \<and>
            \<not> unknown_handle (replicate_poll_image vendor urls' new_id max_wait poll_interval quiet)"
  proof (intro allI impI)
    fix post prompt aspect_ratio resolution model new_id urls'
    assume sub: "replicate_submit_image post urls prompt aspect_ratio resolution model
        = Inr (new_id, urls')"
    then obtain poll_url where u: "poll_url \<noteq> []" "urls' = urls(new_id \<mapsto> poll_url)"
      using replicate_submit_image_Inr by blast
    from assms sub have run: "adapter_run urls' (insert new_id issued)"
      by (rule adapter_run.after_submit_image)
    from u have "\<not> unknown_handle (replicate_poll_image vendor urls' new_id max_wait poll_interval quiet)"
      by (simp add: replicate_poll_image_unknown)
    with u run show "(\<exists>poll_url. poll_url \<noteq> [] \<and> urls' new_id = Some poll_url) \<and>
            adapter_run urls' (insert new_id issued) \<and>
            \<not> unknown_handle (replicate_poll_image vendor urls' new_id max_wait poll_interval quiet)"
      by simp
  qed
  have c5: "\<forall>post prompt image_url model duration aspect_ratio new_id urls'.
        replicate_submit_video post urls prompt image_url model duration aspect_ratio
          = Inr (new_id, urls')
        \<longrightarrow> (\<exists>poll_url. poll_url \<noteq> [] \<and> urls' new_id = Some poll_url) \<and>
            adapter_run urls' (insert new_id issued) \<and>
            \<not> unknown_handle (replicate_poll_video vendor urls' new_id max_wait poll_interval quiet)"
  proof (intro allI impI)
    fix post prompt image_url model duration aspect_ratio new_id urls'
    assume sub: "replicate_submit_video post urls prompt image_url model duration aspect_ratio
        = Inr (new_id, urls')"
    then obtain poll_url where u: "poll_url \<noteq> []" "urls' = urls(new_id \<mapsto> poll_url)"
      using replicate_submit_video_Inr by blast
    from assms sub have run: "adapter_run urls' (insert new_id issued)"
      by (rule adapter_run.after_submit_video)
    from u have "\<not> unknown_handle (replicate_poll_video vendor urls' new_id max_wait poll_interval quiet)"
      by (simp add: replicate_poll_video_unknown)
    with u run show "(\<exists>poll_url. poll_url \<noteq> [] \<and> urls' new_id = Some poll_url) \<and>
            adapter_run urls' (insert new_id issued) \<and>
            \<not> unknown_handle (replicate_poll_video vendor urls' new_id max_wait poll_interval quiet)"
      by simp
  qed
  from c1 c2 c3 c4 c5 show ?thesis by (intro conjI)
qed


text \<open>A run of the adapter: one accepted submission, which issues \<open>t1\<close>.\<close>

lemma sample_submit_image:
  "replicate_submit_image accepting_post Map.empty ''a cat'' ''9:16'' ''1K'' ''flux-schnell''
     = Inr (''t1'', [''t1'' \<mapsto> ''https://poll/t1''])"
  by (simp add: replicate_submit_image_def replicate_IMAGE_MODELS_def submit_prediction_def
      accepting_post_def Let_def)

lemma sample_submit_video:
  "replicate_submit_video accepting_post Map.empty ''a cat'' None ''ltx-video'' (Some 5) ''9:16''
     = Inr (''t1'', [''t1'' \<mapsto> ''https://poll/t1''])"
  by (simp add: replicate_submit_video_def replicate_VIDEO_MODELS_def submit_prediction_def
      build_video_payload_def image_entry_def accepting_post_def Let_def)

lemma sample_adapter_run: "adapter_run [''t1'' \<mapsto> ''https://poll/t1''] {''t1''}"
  using adapter_run.after_submit_image [OF adapter_run.at_import sample_submit_image] by simp

text \<open>
  The theorem after that submission: \<open>t2\<close> was never issued and is rejected with no
  request made, \<open>t1\<close> is not rejected.
\<close>

theorem unknown_handle_iff_never_issued_witness:
  "adapter_run [''t1'' \<mapsto> ''https://poll/t1''] {''t1''} \<and>
   ''t2'' \<notin> {''t1''} \<and>
   unknown_handle (replicate_poll_image always_processing [''t1'' \<mapsto> ''https://poll/t1'']
                     ''t2'' 12 5 False) \<and>
   replicate_poll_video always_processing [''t1'' \<mapsto> ''https://poll/t1''] ''t2'' 12 5 False
     = Some (Inl (NoPollURLStored ''Replicate'' ''t2'' ''submit_video''),
             \<lparr>elapsed = 0, retry_count = 0, polls = 0\<rparr>) \<and>
   \<not> unknown_handle (replicate_poll_image always_processing [''t1'' \<mapsto> ''https://poll/t1'']
                       ''t1'' 12 5 False) \<and>
   replicate_submit_image accepting_post Map.empty ''a cat'' ''9:16'' ''1K'' ''flux-schnell''
     = Inr (''t1'', [''t1'' \<mapsto> ''https://poll/t1'']) \<and>
   adapter_run Map.empty {} \<and>
   \<not> unknown_handle (replicate_poll_video always_processing [''t1'' \<mapsto> ''https://poll/t1'']
                       ''t1'' 12 5 False)"
proof -
  let ?urls = "[''t1'' \<mapsto> ''https://poll/t1'']"
  note a = unknown_handle_iff_never_issued [OF sample_adapter_run,
      where vendor = always_processing and max_wait = 12 and poll_interval = 5 and quiet = False]
  have n: "''t2'' \<notin> {''t1''}" by simp
  have m: "\<not> ''t1'' \<notin> {''t1''}" by simp
  from a [of "''t2''"] n
  have u2: "unknown_handle (replicate_poll_image always_processing ?urls ''t2'' 12 5 False)"
    by blast
  from a [of "''t2''"] n
  have v2: "replicate_poll_video always_processing ?urls ''t2'' 12 5 False
     = Some (Inl (NoPollURLStored ''Replicate'' ''t2'' ''submit_video''),
             \<lparr>elapsed = 0, retry_count = 0, polls = 0\<rparr>)"
    by (simp add: loop_entry_def)
  from a [of "''t1''"] m
  have u1: "\<not> unknown_handle (replicate_poll_image always_processing ?urls ''t1'' 12 5 False)"
    and v1: "\<not> unknown_handle (replicate_poll_video always_processing ?urls ''t1'' 12 5 False)"
    by blast+
  from sample_adapter_run n u2 v2 u1 sample_submit_image adapter_run.at_import v1
  show ?thesis by (intro conjI)
qed

lemma wavespeed_submit_image_Inr:
  assumes "wavespeed_submit_image submit urls prompt reference_urls aspect_ratio resolution model
             = Inr (task_id, urls')"
  shows "\<exists>poll_url. urls' = urls(task_id \<mapsto> poll_url)"
  using assms
  by (auto simp: wavespeed_submit_image_def Let_def
      split: option.splits if_splits sum.splits prod.splits)

lemma wavespeed_submit_video_Inr:
  assumes "wavespeed_submit_video submit urls prompt image_url model duration aspect_ratio mode
             = Inr (task_id, urls')"
  shows "\<exists>poll_url. urls' = urls(task_id \<mapsto> poll_url)"
  using assms
  by (auto simp: wavespeed_submit_video_def Let_def
      split: option.splits if_splits sum.splits prod.splits)

text \<open>
  Claim C10. Each adapter has one dict for both kinds. In the Replicate adapter
  \<open>poll_image\<close> and \<open>poll_video\<close> raise the unknown-handle error for the same task ids, a
  task id returned by \<open>submit_image\<close> is not rejected by \<open>poll_video\<close>, and one returned
  by \<open>submit_video\<close> is not rejected by \<open>poll_image\<close>. In the WaveSpeed adapter both
  poll functions hand a task id with a non-empty stored URL to the same call of
  \<open>poll_wavespeed_task\<close>, and a task id returned by one kind's submit function is stored
  in the dict the other kind's poll function reads, so that it is polled, not rejected,
  whenever the URL that \<open>submit_wavespeed_task\<close> returned is not empty.
\<close>

theorem handles_shared_across_kinds:
  "(unknown_handle (replicate_poll_image vendor urls task_id max_wait poll_interval quiet)
      \<longleftrightarrow> unknown_handle (replicate_poll_video vendor urls task_id max_wait poll_interval quiet)) \<and>
   (\<forall>post prompt aspect_ratio resolution model new_id urls'.
      replicate_submit_image post urls prompt aspect_ratio resolution model = Inr (new_id, urls')
      \<longrightarrow> \<not> unknown_handle (replicate_poll_video vendor urls' new_id max_wait poll_interval quiet)) \<and>
   (\<forall>post prompt image_url model duration aspect_ratio new_id urls'.
      replicate_submit_video post urls prompt image_url model duration aspect_ratio
        = Inr (new_id, urls')
      \<longrightarrow> \<not> unknown_handle (replicate_poll_image vendor urls' new_id max_wait poll_interval quiet)) \<and>
   (\<forall>poll_url. urls task_id = Some poll_url \<and> poll_url \<noteq> [] \<longrightarrow>
      wavespeed_poll_image poller urls task_id max_wait poll_interval quiet
        = poller task_id poll_url max_wait poll_interval quiet \<and>
      wavespeed_poll_video poller urls task_id max_wait poll_interval quiet
        = poller task_id poll_url max_wait poll_interval quiet) \<and>
   (\<forall>submit prompt reference_urls aspect_ratio resolution model new_id urls'.
      wavespeed_submit_image submit urls prompt reference_urls aspect_ratio resolution model
        = Inr (new_id, urls')
      \<longrightarrow> (\<exists>poll_url. urls' new_id = Some poll_url \<and>
             (poll_url \<noteq> [] \<longrightarrow>
                wavespeed_poll_video poller urls' new_id max_wait poll_interval quiet
                  = poller new_id poll_url max_wait poll_interval quiet))) \<and>
   (\<forall>submit prompt image_url model duration aspect_ratio mode new_id urls'.
      wavespeed_submit_video submit urls prompt image_url model duration aspect_ratio mode
        = Inr (new_id, urls')
      \<longrightarrow> (\<exists>poll_url. urls' new_id = Some poll_url \<and>
             (poll_url \<noteq> [] \<longrightarrow>
                wavespeed_poll_image poller urls' new_id max_wait poll_interval quiet
                  = poller new_id poll_url max_wait poll_interval quiet)))"
proof -
  have c1: "unknown_handle (replicate_poll_image vendor urls task_id max_wait poll_interval quiet)
      \<longleftrightarrow> unknown_handle (replicate_poll_video vendor urls task_id max_wait poll_interval quiet)"
    by (simp add: replicate_poll_image_unknown replicate_poll_video_unknown)
  have c2: "\<forall>post prompt aspect_ratio resolution model new_id urls'.
      replicate_submit_image post urls prompt aspect_ratio resolution model = Inr (new_id, urls')
      \<longrightarrow> \<not> unknown_handle (replicate_poll_video vendor urls' new_id max_wait poll_interval quiet)"
  proof (intro allI impI)
    fix post prompt aspect_ratio resolution model new_id urls'
    assume "replicate_submit_image post urls prompt aspect_ratio resolution model
        = Inr (new_id, urls')"
    then obtain poll_url where "poll_url \<noteq> []" "urls' = urls(new_id \<mapsto> poll_url)"
      using replicate_submit_image_Inr by blast
    then show "\<not> unknown_handle (replicate_poll_video vendor urls' new_id max_wait poll_interval quiet)"
      by (simp add: replicate_poll_video_unknown)
  qed
  have c3: "\<forall>post prompt image_url model duration aspect_ratio new_id urls'.
      replicate_submit_video post urls prompt image_url model duration aspect_ratio
        = Inr (new_id, urls')
      \<longrightarrow> \<not> unknown_handle (replicate_poll_image vendor urls' new_id max_wait poll_interval quiet)"
  proof (intro allI impI)
    fix post prompt image_url model duration aspect_ratio new_id urls'
    assume "replicate_submit_video post urls prompt image_url model duration aspect_ratio
        = Inr (new_id, urls')"
    then obtain poll_url where "poll_url \<noteq> []" "urls' = urls(new_id \<mapsto> poll_url)"
      using replicate_submit_video_Inr by blast
    then show "\<not> unknown_handle (replicate_poll_image vendor urls' new_id max_wait poll_interval quiet)"
      by (simp add: replicate_poll_image_unknown)
  qed
  have c4: "\<forall>poll_url. urls task_id = Some poll_url \<and> poll_url \<noteq> [] \<longrightarrow>
      wavespeed_poll_image poller urls task_id max_wait poll_interval quiet
        = poller task_id poll_url max_wait poll_interval quiet \<and>
      wavespeed_poll_video poller urls task_id max_wait poll_interval quiet
        = poller task_id poll_url max_wait poll_interval quiet"
    by (simp add: wavespeed_poll_image_def wavespeed_poll_video_def)
  have c5: "\<forall>submit prompt reference_urls aspect_ratio resolution model new_id urls'.
      wavespeed_submit_image submit urls prompt reference_urls aspect_ratio resolution model
        = Inr (new_id, urls')
      \<longrightarrow> (\<exists>poll_url. urls' new_id = Some poll_url \<and>
             (poll_url \<noteq> [] \<longrightarrow>
                wavespeed_poll_video poller urls' new_id max_wait poll_interval quiet
                  = poller new_id poll_url max_wait poll_interval quiet))"
  proof (intro allI impI)
    fix submit prompt reference_urls aspect_ratio resolution model new_id urls'
    assume "wavespeed_submit_image submit urls prompt reference_urls aspect_ratio resolution model
        = Inr (new_id, urls')"
    then obtain poll_url where "urls' = urls(new_id \<mapsto> poll_url)"
      using wavespeed_submit_image_Inr by blast
    then show "\<exists>poll_url. urls' new_id = Some poll_url \<and>
             (poll_url \<noteq> [] \<longrightarrow>
                wavespeed_poll_video poller urls' new_id max_wait poll_interval quiet
                  = poller new_id poll_url max_wait poll_interval quiet)"
      by (simp add: wavespeed_poll_video_def)
  qed
  have c6: "\<forall>submit prompt image_url model duration aspect_ratio mode new_id urls'.
      wavespeed_submit_video submit urls prompt image_url model duration aspect_ratio mode
        = Inr (new_id, urls')
      \<longrightarrow> (\<exists>poll_url. urls' new_id = Some poll_url \<and>
             (poll_url \<noteq> [] \<longrightarrow>
                wavespeed_poll_image poller urls' new_id max_wait poll_interval quiet
                  = poller new_id poll_url max_wait poll_interval quiet))"
  proof (intro allI impI)
    fix submit prompt image_url model duration aspect_ratio mode new_id urls'
    assume "wavespeed_submit_video submit urls prompt image_url model duration aspect_ratio mode
        = Inr (new_id, urls')"
    then obtain poll_url where "urls' = urls(new_id \<mapsto> poll_url)"
      using wavespeed_submit_video_Inr by blast
    then show "\<exists>poll_url. urls' new_id = Some poll_url \<and>
             (poll_url \<noteq> [] \<longrightarrow>
                wavespeed_poll_image poller urls' new_id max_wait poll_interval quiet
                  = poller new_id poll_url max_wait poll_interval quiet)"
      by (simp add: wavespeed_poll_image_def)
  qed
  from c1 c2 c3 c4 c5 c6 show ?thesis by (intro conjI)
qed


lemma sample_wavespeed_submit_image:
  "wavespeed_submit_image accepting_submitter Map.empty ''a cat'' None ''9:16'' ''1K''
       ''gpt-image-1.5''
     = Inr (''w1'', [''w1'' \<mapsto> ''https://poll/w1''])"
  by (simp add: wavespeed_submit_image_def wavespeed_IMAGE_MODELS_def accepting_submitter_def
      Let_def)

text \<open>
  The theorem at a handle issued by \<open>submit_image\<close> and polled by \<open>poll_video\<close>, and
  the other way round, in both adapters.
\<close>

theorem handles_shared_across_kinds_witness:
  "replicate_submit_image accepting_post Map.empty ''a cat'' ''9:16'' ''1K'' ''flux-schnell''
     = Inr (''t1'', [''t1'' \<mapsto> ''https://poll/t1'']) \<and>
   \<not> unknown_handle (replicate_poll_video always_processing [''t1'' \<mapsto> ''https://poll/t1'']
                       ''t1'' 12 5 False) \<and>
   replicate_submit_video accepting_post Map.empty ''a cat'' None ''ltx-video'' (Some 5) ''9:16''
     = Inr (''t1'', [''t1'' \<mapsto> ''https://poll/t1'']) \<and>
   \<not> unknown_handle (replicate_poll_image always_processing [''t1'' \<mapsto> ''https://poll/t1'']
                       ''t1'' 12 5 False) \<and>
   wavespeed_submit_image accepting_submitter Map.empty ''a cat'' None ''9:16'' ''1K''
       ''gpt-image-1.5''
     = Inr (''w1'', [''w1'' \<mapsto> ''https://poll/w1'']) \<and>
   wavespeed_poll_video (sample_pollers 0) [''w1'' \<mapsto> ''https://poll/w1''] ''w1'' 12 5 False
     = Some (Inr (Success ''w1'' (JStr ''https://poll/w1'')))"
proof -
  note a = handles_shared_across_kinds [where urls = Map.empty and vendor = always_processing
      and max_wait = 12 and poll_interval = 5 and quiet = False and poller = "sample_pollers 0"
      and task_id = "''t1''"]
  note c2 = a [THEN conjunct2, THEN conjunct1, rule_format]
  note c3 = a [THEN conjunct2, THEN conjunct2, THEN conjunct1, rule_format]
  note c5 = a [THEN conjunct2, THEN conjunct2, THEN conjunct2, THEN conjunct2, THEN conjunct1,
      rule_format]
  from c2 [OF sample_submit_image]
  have v: "\<not> unknown_handle (replicate_poll_video always_processing
      [''t1'' \<mapsto> ''https://poll/t1''] ''t1'' 12 5 False)" .
  from c3 [OF sample_submit_video]
  have i: "\<not> unknown_handle (replicate_poll_image always_processing
      [''t1'' \<mapsto> ''https://poll/t1''] ''t1'' 12 5 False)" .
  from c5 [OF sample_wavespeed_submit_image]
  have "\<exists>poll_url. [''w1'' \<mapsto> ''https://poll/w1''] ''w1'' = Some poll_url \<and>
          (poll_url \<noteq> [] \<longrightarrow>
             wavespeed_poll_video (sample_pollers 0) [''w1'' \<mapsto> ''https://poll/w1''] ''w1'' 12 5 False
               = sample_pollers 0 ''w1'' poll_url 12 5 False)" .
  then have w: "wavespeed_poll_video (sample_pollers 0) [''w1'' \<mapsto> ''https://poll/w1''] ''w1'' 12 5 False
     = Some (Inr (Success ''w1'' (JStr ''https://poll/w1'')))"
    by (simp add: sample_pollers_def)
  from sample_submit_image v sample_submit_video i sample_wavespeed_submit_image w
  show ?thesis by (intro conjI)
qed


end
